theory Spec2Isabelle
  imports Main
begin

section \<open>Time, durations and the collaborators' data\<close>

text \<open>
  A \<open>time.Time\<close> is an integer count of nanoseconds since the Unix epoch; its range is far
  wider than 64 bits of nanoseconds, and \<open>Before\<close>, \<open>After\<close> and \<open>Add\<close> are \<open><\<close>, \<open>>\<close>
  and \<open>+\<close>. A \<open>time.Duration\<close> is an int64 count of nanoseconds: \<open>Time.Sub\<close> saturates at
  the bounds of int64, and sums and products of durations wrap around. The constant durations
  of the check (step, lookback, min-age) are far inside the range.
\<close>

type_synonym Time = int
type_synonym Duration = int
type_synonym error = string

definition Second :: Duration where
  "Second = 1000000000"

definition Minute :: Duration where
  "Minute = 60 * Second"

definition Hour :: Duration where
  "Hour = 60 * Minute"

definition rangeLookback :: Duration where
  "rangeLookback = Hour * 24 * 7"

definition rangeStep :: Duration where
  "rangeStep = Minute * 5"

text \<open>The zero \<open>time.Time\<close> is January 1, year 1, 00:00 UTC, 62135596800 seconds before the epoch.\<close>

definition zeroTime :: Time where
  "zeroTime = - 62135596800 * 1000000000"

definition IsZero :: "Time \<Rightarrow> bool" where
  "IsZero t = (t = zeroTime)"

text \<open>\<open>model.Time\<close> counts milliseconds since the epoch; \<open>Time()\<close> converts it.\<close>

definition Timestamp_Time :: "int \<Rightarrow> Time" where
  "Timestamp_Time ms = ms * 1000000"

text \<open>
  Arithmetic on int64: \<open>wrap64\<close> is the value a sum or a product has after wrapping around,
  \<open>sat64\<close> the value after saturation, and \<open>Sub\<close> is \<open>Time.Sub\<close>.
\<close>

definition wrap64 :: "int \<Rightarrow> int" where
  "wrap64 x = (x + 9223372036854775808) mod 18446744073709551616 - 9223372036854775808"

definition sat64 :: "int \<Rightarrow> int" where
  "sat64 x = max (- 9223372036854775808) (min 9223372036854775807 x)"

definition Sub :: "Time \<Rightarrow> Time \<Rightarrow> Duration" where
  "Sub t u = sat64 (t - u)"

text \<open>Go's integer division truncates toward zero.\<close>

definition go_div :: "int \<Rightarrow> int \<Rightarrow> int" where
  "go_div a b = sgn a * sgn b * (\<bar>a\<bar> div \<bar>b\<bar>)"

text \<open>
  A \<open>model.LabelSet\<close> is a Go map from label names to label values; \<open>Equal\<close> on label sets
  is equality of the maps.
\<close>

type_synonym LabelSet = "string \<rightharpoonup> string"

text \<open>
  Modelled from the spec: the answers of the query backend (\<open>promapi\<close>) are declared outside
  this file. A range query answers with the source URI, the start and the end of the window and
  the series; one series is its label set and the timestamps (milliseconds) of its samples, in
  the order the backend returns them. The sample values are not read by this check.
\<close>

record SampleStream =
  Metric :: LabelSet
  Values :: "int list"

record RangeQueryResult =
  rq_URI :: string
  rq_Start :: Time
  rq_End :: Time
  rq_Samples :: "SampleStream list"

text \<open>
  An instant query answers with the source URI and the series; \<open>q_Series\<close> holds
  \<open>int(s.Value)\<close> of every returned series (the answers of \<open>count(...)\<close> are whole numbers).
\<close>

record QueryResult =
  q_URI :: string
  q_Series :: "int list"

section \<open>Presence intervals\<close>

record timeRange =
  r_labels :: LabelSet
  r_start :: Time
  r_end :: Time

record timeRanges =
  tr_uri :: string
  tr_from :: Time
  tr_until :: Time
  tr_step :: Duration
  tr_ranges :: "timeRange list"

text \<open>
  The body of the sample loop of \<open>serieTimeRanges\<close>: the first range of the same label set
  with \<open>start \<le> ts \<le> end\<close> is extended to \<open>ts + step\<close>; when there is none a new range
  is appended.
\<close>

fun add_sample :: "Duration \<Rightarrow> LabelSet \<Rightarrow> Time \<Rightarrow> timeRange list \<Rightarrow> timeRange list" where
  "add_sample stp m ts [] = [\<lparr>r_labels = m, r_start = ts, r_end = ts + stp\<rparr>]"
| "add_sample stp m ts (r # rs) =
     (if r_labels r = m \<and> \<not> ts < r_start r \<and> \<not> ts > r_end r
      then r\<lparr>r_end := ts + stp\<rparr> # rs
      else r # add_sample stp m ts rs)"

definition add_stream :: "Duration \<Rightarrow> timeRange list \<Rightarrow> SampleStream \<Rightarrow> timeRange list" where
  "add_stream stp rs s = foldl (\<lambda>acc v. add_sample stp (Metric s) (Timestamp_Time v) acc) rs (Values s)"

definition build_ranges :: "Duration \<Rightarrow> SampleStream list \<Rightarrow> timeRange list" where
  "build_ranges stp samples = foldl (add_stream stp) [] samples"

text \<open>
  \<open>withLabelName\<close> keeps the ranges whose label set has the label (a Go map holds a key at
  most once, so a range is appended at most once).
\<close>

definition withLabelName :: "timeRanges \<Rightarrow> string \<Rightarrow> timeRange list" where
  "withLabelName tr name = filter (\<lambda>s. r_labels s name \<noteq> None) (tr_ranges tr)"

text \<open>
  \<open>labelValues\<close> collects the distinct values of the label. Go returns them in the
  unspecified order of a map iteration; only the length of the result is read.
\<close>

definition labelValues :: "timeRanges \<Rightarrow> string \<Rightarrow> string list" where
  "labelValues tr name = remdups (List.map_filter (\<lambda>s. r_labels s name) (tr_ranges tr))"

definition duration :: "timeRanges \<Rightarrow> Duration" where
  "duration tr = Sub (tr_until tr) (tr_from tr)"

text \<open>
  \<open>int(d.Seconds())\<close>: the whole seconds of a duration, truncated toward zero.
  \<open>Seconds\<close> goes through a float64, \<open>float64(d / Second) + float64(d % Second) / 1e9\<close>;
  the truncation of that sum is \<open>d / Second\<close> unless the fraction of a second is within a
  microsecond of a whole second, which no whole number of milliseconds is.
\<close>

definition whole_seconds :: "Duration \<Rightarrow> int" where
  "whole_seconds d = go_div d Second"

text \<open>
  The loop of \<open>avgLife\<close>: \<open>d += r.end.Sub(r.start)\<close> over the ranges, in an int64 that wraps
  around.
\<close>

definition total_life :: "timeRanges \<Rightarrow> Duration" where
  "total_life tr = foldl (\<lambda>d r. wrap64 (d + Sub (r_end r) (r_start r))) 0 (tr_ranges tr)"

definition avgLife :: "timeRanges \<Rightarrow> Duration" where
  "avgLife tr =
     (if tr_ranges tr = [] then 0
      else wrap64 (Second * go_div (whole_seconds (total_life tr)) (int (length (tr_ranges tr)))))"

definition oldest :: "timeRanges \<Rightarrow> Time" where
  "oldest tr = foldl (\<lambda>ts r. if IsZero ts \<or> r_start r < ts then r_start r else ts) zeroTime (tr_ranges tr)"

definition newest :: "timeRanges \<Rightarrow> Time" where
  "newest tr = foldl (\<lambda>ts r. if IsZero ts \<or> r_end r > ts then r_end r else ts) zeroTime (tr_ranges tr)"

text \<open>The high-churn test of the per-label loop.\<close>

definition highChurn :: "timeRanges \<Rightarrow> string \<Rightarrow> bool" where
  "highChurn tr name =
     (length (labelValues tr name) = length (tr_ranges tr) \<and> avgLife tr < go_div (duration tr) 2)"

section \<open>Selectors, rules, findings\<close>

datatype MatchType = MatchEqual | MatchNotEqual | MatchRegexp | MatchNotRegexp

record Matcher =
  lm_Type :: MatchType
  lm_Name :: string
  lm_Value :: string

record VectorSelector =
  Name :: string
  LabelMatchers :: "Matcher list"

text \<open>
  Modelled from the spec: the expression tree (\<open>parser.PromQLNode\<close>, \<open>parser.PromQLExpr\<close>) is
  declared outside this file, a tree of typed nodes that the check walks for its leaf selectors.
  \<open>Node\<close> is the vector selector when the node is one (the type assertion of \<open>getSelectors\<close>
  succeeds), with the two fields the check copies.
\<close>

datatype PromQLNode = PromQLNode (Node: "VectorSelector option") (Children: "PromQLNode list")

record PromQLExpr =
  SyntaxError :: "error option"
  Query :: PromQLNode
  expr_Lines :: "nat list"

record Comment =
  cmt_Value :: string
  cmt_String :: string

text \<open>
  Modelled from the spec: the rule and its directive store (\<open>parser.Rule\<close>) are declared outside
  this file; the store exposes \<open>HasComment(text)\<close> and \<open>GetComment(keyTokens...)\<close>, and a
  directive found has a value and a string form.
\<close>

record Rule =
  Expr :: PromQLExpr
  LineRange :: "nat list"
  HasComment :: "string \<Rightarrow> bool"
  GetComment :: "string list \<Rightarrow> Comment option"

text \<open>
  Modelled from the spec: a discovered sibling rule (\<open>discovery.Entry\<close>) is declared outside
  this file; it exposes the alert name when it is an alerting rule, the recorded metric when it
  is a recording rule, and its parse error when it has one.
\<close>

record Entry =
  e_Path :: string
  AlertingRule :: "string option"
  RecordingRule :: "string option"
  RuleError :: "error option"

text \<open>
  Modelled from the spec: \<open>Severity\<close> and \<open>Problem\<close> are declared outside this file. A finding
  has a fragment, the affected lines, a reporter, a text and a severity, one of
  \<open>Information\<close>, \<open>Warning\<close>, \<open>Bug\<close>.
\<close>

datatype Severity = Information | Warning | Bug

record Problem =
  Fragment :: string
  Lines :: "nat list"
  Reporter :: string
  Text :: string
  Severity :: Severity

text \<open>
  The collaborators of the check that live outside this file, taken as parameters: the query
  backend (\<open>promQuery\<close>, \<open>promRangeQuery\<close>, answering a query text with an error or a
  result; within one run the same query text gets the same answer), the error classification,
  the text helpers, the duration parser, the canonical strings of selectors and matchers, the
  clock (\<open>Since\<close>), \<open>Duration.Round\<close> and the \<open>%q\<close> verb.
\<close>

record env =
  promName :: string
  promQuery :: "string \<Rightarrow> error + QueryResult"
  promRangeQuery :: "string \<Rightarrow> Duration \<Rightarrow> Duration \<Rightarrow> error + RangeQueryResult"
  textAndSeverityFromError :: "error \<Rightarrow> string \<Rightarrow> string \<Rightarrow> Severity \<Rightarrow> string \<times> Severity"
  promText :: "string \<Rightarrow> string \<Rightarrow> string"
  HumanizeDuration :: "Duration \<Rightarrow> string"
  ParseDuration :: "string \<Rightarrow> error + Duration"
  selectorString :: "VectorSelector \<Rightarrow> string"
  matcherString :: "Matcher \<Rightarrow> string"
  Since :: "Time \<Rightarrow> Duration"
  Round :: "Duration \<Rightarrow> Duration \<Rightarrow> Duration"
  quoted :: "string \<Rightarrow> string"

text \<open>
  What a run of the check asked of its collaborators, in order: every backend query and every
  directive lookup is recorded with its argument.
\<close>

datatype event =
  QueryEv string
  | RangeQueryEv string
  | HasCommentEv string
  | GetCommentEv "string list"

record check_state =
  st_done :: "string set"
  st_problems :: "Problem list"
  st_trace :: "event list"

definition SeriesCheckName :: string where
  "SeriesCheckName = ''promql/series''"

definition MetricName :: string where
  "MetricName = ''__name__''"

definition add_problem :: "Problem \<Rightarrow> check_state \<Rightarrow> check_state" where
  "add_problem p st = st\<lparr>st_problems := st_problems st @ [p]\<rparr>"

definition add_events :: "event list \<Rightarrow> check_state \<Rightarrow> check_state" where
  "add_events evs st = st\<lparr>st_trace := st_trace st @ evs\<rparr>"

text \<open>
  The lookups of a chain \<open>HasComment(a) || HasComment(b) || ...\<close> (or of a loop that returns
  at the first hit): the keys are probed in order up to and including the first one present.
\<close>

fun comment_lookups :: "(string \<Rightarrow> bool) \<Rightarrow> string list \<Rightarrow> string list" where
  "comment_lookups has [] = []"
| "comment_lookups has (s # ss) = s # (if has s then [] else comment_lookups has ss)"

fun getSelectors :: "PromQLNode \<Rightarrow> VectorSelector list" where
  "getSelectors (PromQLNode n children) =
     (case n of
        Some node \<Rightarrow> [\<lparr>Name = Name node, LabelMatchers = LabelMatchers node\<rparr>]
      | None \<Rightarrow> [])
     @ concat (map getSelectors children)"

text \<open>
  \<open>stripLabels\<close> keeps the \<open>__name__\<close> matchers; the name of the result is the value of
  the last of them, or the selector's name when there is none.
\<close>

definition stripLabels :: "VectorSelector \<Rightarrow> VectorSelector" where
  "stripLabels selector =
     foldl (\<lambda>s lm. if lm_Name lm = MetricName
                    then \<lparr>Name = lm_Value lm, LabelMatchers = LabelMatchers s @ [lm]\<rparr>
                    else s)
       \<lparr>Name = Name selector, LabelMatchers = []\<rparr> (LabelMatchers selector)"

definition sinceDesc :: "env \<Rightarrow> Time \<Rightarrow> string" where
  "sinceDesc env t =
     (if Since env t > Hour * 24
      then HumanizeDuration env (Round env (Since env t) Hour)
      else HumanizeDuration env (Round env (Since env t) Minute))"

definition queryProblem :: "env \<Rightarrow> error \<Rightarrow> string \<Rightarrow> PromQLExpr \<Rightarrow> Problem" where
  "queryProblem env err selector expr =
     \<lparr>Fragment = selector, Lines = expr_Lines expr, Reporter = SeriesCheckName,
      Text = fst (textAndSeverityFromError env err SeriesCheckName (promName env) Bug),
      Severity = snd (textAndSeverityFromError env err SeriesCheckName (promName env) Bug)\<rparr>"

definition instantSeriesCount :: "env \<Rightarrow> string \<Rightarrow> error + (int \<times> string)" where
  "instantSeriesCount env query =
     (case promQuery env query of
        Inl err \<Rightarrow> Inl err
      | Inr qr \<Rightarrow> Inr (foldl (\<lambda>series v. series + v) 0 (q_Series qr), q_URI qr))"

definition serieTimeRanges :: "env \<Rightarrow> string \<Rightarrow> Duration \<Rightarrow> Duration \<Rightarrow> error + timeRanges" where
  "serieTimeRanges env query lookback stp =
     (case promRangeQuery env query lookback stp of
        Inl err \<Rightarrow> Inl err
      | Inr qr \<Rightarrow>
          Inr \<lparr>tr_uri = rq_URI qr, tr_from = rq_Start qr, tr_until = rq_End qr, tr_step = stp,
               tr_ranges = build_ranges stp (rq_Samples qr)\<rparr>)"

section \<open>Directives\<close>

text \<open>The three keys \<open>getMinAge\<close> probes: for the reporter, for the bare selector, for the selector.\<close>

definition reporter_key :: "string list" where
  "reporter_key = [''rule/set'', SeriesCheckName, ''min-age'']"

definition bare_key :: "env \<Rightarrow> VectorSelector \<Rightarrow> string list" where
  "bare_key env selector =
     [''rule/set'', SeriesCheckName @ ''('' @ selectorString env (stripLabels selector) @ '')'', ''min-age'']"

definition selector_key :: "env \<Rightarrow> VectorSelector \<Rightarrow> string list" where
  "selector_key env selector =
     [''rule/set'', SeriesCheckName @ ''('' @ selectorString env selector @ '')'', ''min-age'']"

definition minAge_keys :: "env \<Rightarrow> VectorSelector \<Rightarrow> string list list" where
  "minAge_keys env selector = [reporter_key, bare_key env selector, selector_key env selector]"

definition parse_problem :: "Rule \<Rightarrow> Comment \<Rightarrow> error \<Rightarrow> Problem" where
  "parse_problem rule cmt err =
     \<lparr>Fragment = cmt_String cmt, Lines = LineRange rule, Reporter = SeriesCheckName,
      Text = ''failed to parse pint comment as duration: '' @ err, Severity = Warning\<rparr>"

text \<open>One round of the loop of \<open>getMinAge\<close> over the three directive keys.\<close>

definition minAge_step :: "env \<Rightarrow> Rule \<Rightarrow> Duration \<times> Problem list \<Rightarrow> string list \<Rightarrow> Duration \<times> Problem list" where
  "minAge_step env rule acc s =
     (case GetComment rule s of
        None \<Rightarrow> acc
      | Some cmt \<Rightarrow>
          (case ParseDuration env (cmt_Value cmt) of
             Inl err \<Rightarrow> (fst acc, snd acc @ [parse_problem rule cmt err])
           | Inr dur \<Rightarrow> (dur, snd acc)))"

definition getMinAge :: "env \<Rightarrow> Rule \<Rightarrow> VectorSelector \<Rightarrow> Duration \<times> Problem list" where
  "getMinAge env rule selector = foldl (minAge_step env rule) (Hour * 2, []) (minAge_keys env selector)"

text \<open>The directive lookups of one call of \<open>getMinAge\<close>: all three keys, in order.\<close>

definition getMinAge_events :: "env \<Rightarrow> VectorSelector \<Rightarrow> event list" where
  "getMinAge_events env selector = map GetCommentEv (minAge_keys env selector)"

definition ignore_keys :: "env \<Rightarrow> VectorSelector \<Rightarrow> string \<Rightarrow> string list" where
  "ignore_keys env selector labelName =
     [''rule/set '' @ SeriesCheckName @ '' ignore/label-value '' @ labelName,
      ''rule/set '' @ SeriesCheckName @ ''('' @ selectorString env (stripLabels selector) @ '')''
        @ '' ignore/label-value '' @ labelName,
      ''rule/set '' @ SeriesCheckName @ ''('' @ selectorString env selector @ '')''
        @ '' ignore/label-value '' @ labelName]"

definition isLabelValueIgnored :: "env \<Rightarrow> Rule \<Rightarrow> VectorSelector \<Rightarrow> string \<Rightarrow> bool" where
  "isLabelValueIgnored env rule selector labelName =
     list_ex (HasComment rule) (ignore_keys env selector labelName)"

definition disable_keys :: "env \<Rightarrow> VectorSelector \<Rightarrow> string list" where
  "disable_keys env selector =
     [''disable '' @ SeriesCheckName @ ''('' @ selectorString env selector @ '')'',
      ''disable '' @ SeriesCheckName @ ''('' @ selectorString env (stripLabels selector) @ '')'']"

section \<open>The decision pipeline\<close>

text \<open>
  The metric name of a selector: its name, or, when that is empty, the value of its first
  \<open>__name__\<close> equality matcher.
\<close>

definition metricName :: "VectorSelector \<Rightarrow> string" where
  "metricName selector =
     (if Name selector = []
      then (case find (\<lambda>lm. lm_Name lm = MetricName \<and> lm_Type lm = MatchEqual) (LabelMatchers selector) of
              Some lm \<Rightarrow> lm_Value lm
            | None \<Rightarrow> [])
      else Name selector)"

subsection \<open>Step 0: the alert metrics\<close>

text \<open>The value of the last \<open>alertname\<close> matcher that is not a regexp matcher, or the empty string.\<close>

definition alertname_of :: "VectorSelector \<Rightarrow> string" where
  "alertname_of selector =
     foldl (\<lambda>alertname lm.
              if lm_Name lm = ''alertname'' \<and> lm_Type lm \<noteq> MatchRegexp \<and> lm_Type lm \<noteq> MatchNotRegexp
              then lm_Value lm else alertname)
       [] (LabelMatchers selector)"

definition arEntry :: "Entry list \<Rightarrow> string \<Rightarrow> Entry option" where
  "arEntry entries alertname =
     find (\<lambda>entry. AlertingRule entry \<noteq> None \<and> RuleError entry = None \<and> AlertingRule entry = Some alertname)
       entries"

definition alert_found_problem :: "env \<Rightarrow> PromQLExpr \<Rightarrow> VectorSelector \<Rightarrow> string \<Rightarrow> Problem" where
  "alert_found_problem env expr selector alertname =
     \<lparr>Fragment = selectorString env selector, Lines = expr_Lines expr, Reporter = SeriesCheckName,
      Text = selectorString env selector
        @ '' metric is generated by alerts and found alerting rule named '' @ quoted env alertname,
      Severity = Information\<rparr>"

definition alert_missing_problem :: "env \<Rightarrow> PromQLExpr \<Rightarrow> VectorSelector \<Rightarrow> string \<Rightarrow> Problem" where
  "alert_missing_problem env expr selector alertname =
     \<lparr>Fragment = selectorString env selector, Lines = expr_Lines expr, Reporter = SeriesCheckName,
      Text = selectorString env selector
        @ '' metric is generated by alerts but didn'' @ [CHR 0x27] @ ''t found any rule named ''
        @ quoted env alertname,
      Severity = Bug\<rparr>"

definition alerts_check :: "env \<Rightarrow> PromQLExpr \<Rightarrow> Entry list \<Rightarrow> VectorSelector \<Rightarrow> check_state \<Rightarrow> check_state" where
  "alerts_check env expr entries selector st =
     (if alertname_of selector \<noteq> []
      then (if arEntry entries (alertname_of selector) \<noteq> None
            then add_problem (alert_found_problem env expr selector (alertname_of selector)) st
            else add_problem (alert_missing_problem env expr selector (alertname_of selector)) st)
      else st)"

subsection \<open>Step 3: the per-label loop\<close>

definition labelNames :: "VectorSelector \<Rightarrow> string list" where
  "labelNames selector = map lm_Name (filter (\<lambda>lm. lm_Name lm \<noteq> MetricName) (LabelMatchers selector))"

definition label_selector :: "VectorSelector \<Rightarrow> string \<Rightarrow> VectorSelector" where
  "label_selector selector name =
     (stripLabels selector)\<lparr>LabelMatchers := LabelMatchers (stripLabels selector)
        @ [\<lparr>lm_Type = MatchRegexp, lm_Name = name, lm_Value = ''.+''\<rparr>]\<rparr>"

definition label_query :: "env \<Rightarrow> VectorSelector \<Rightarrow> string \<Rightarrow> string" where
  "label_query env selector name =
     ''count('' @ selectorString env (label_selector selector name) @ '') by ('' @ name @ '')''"

definition no_label_problem :: "env \<Rightarrow> PromQLExpr \<Rightarrow> VectorSelector \<Rightarrow> timeRanges \<Rightarrow> string \<Rightarrow> Problem" where
  "no_label_problem env expr selector trsLabelCount name =
     \<lparr>Fragment = selectorString env selector, Lines = expr_Lines expr, Reporter = SeriesCheckName,
      Text = promText env (promName env) (tr_uri trsLabelCount) @ '' has ''
        @ quoted env (selectorString env (stripLabels selector))
        @ '' metric but there are no series with '' @ quoted env name @ '' label in the last ''
        @ sinceDesc env (tr_from trsLabelCount),
      Severity = Bug\<rparr>"

text \<open>
  One round of the per-label loop. The state carries the findings and the trace; the second
  component is \<open>highChurnLabels\<close>.
\<close>

definition label_step :: "env \<Rightarrow> PromQLExpr \<Rightarrow> VectorSelector \<Rightarrow> check_state \<times> string list \<Rightarrow> string \<Rightarrow> check_state \<times> string list" where
  "label_step env expr selector acc name =
     (case serieTimeRanges env (label_query env selector name) rangeLookback rangeStep of
        Inl err \<Rightarrow>
          (add_problem (queryProblem env err (selectorString env selector) expr)
             (add_events [RangeQueryEv (label_query env selector name)] (fst acc)),
           snd acc)
      | Inr trsLabelCount \<Rightarrow>
          ((if withLabelName trsLabelCount name = []
            then add_problem (no_label_problem env expr selector trsLabelCount name)
                   (add_events [RangeQueryEv (label_query env selector name)] (fst acc))
            else add_events [RangeQueryEv (label_query env selector name)] (fst acc)),
           (if highChurn trsLabelCount name then snd acc @ [name] else snd acc)))"

definition label_loop :: "env \<Rightarrow> PromQLExpr \<Rightarrow> VectorSelector \<Rightarrow> check_state \<Rightarrow> check_state \<times> string list" where
  "label_loop env expr selector st = foldl (label_step env expr selector) (st, []) (labelNames selector)"

subsection \<open>Steps 4 to 8\<close>

definition disappeared_problem :: "env \<Rightarrow> PromQLExpr \<Rightarrow> VectorSelector \<Rightarrow> timeRanges \<Rightarrow> Problem" where
  "disappeared_problem env expr selector trs =
     \<lparr>Fragment = selectorString env (stripLabels selector), Lines = expr_Lines expr,
      Reporter = SeriesCheckName,
      Text = promText env (promName env) (tr_uri trs) @ '' doesn'' @ [CHR 0x27] @ ''t currently have ''
        @ quoted env (selectorString env (stripLabels selector)) @ '', it was last present ''
        @ sinceDesc env (newest trs) @ '' ago'',
      Severity = Bug\<rparr>"

definition matcher_selector :: "VectorSelector \<Rightarrow> Matcher \<Rightarrow> VectorSelector" where
  "matcher_selector selector lm = \<lparr>Name = metricName selector, LabelMatchers = [lm]\<rparr>"

definition matcher_query :: "env \<Rightarrow> VectorSelector \<Rightarrow> Matcher \<Rightarrow> string" where
  "matcher_query env selector lm = ''count('' @ selectorString env (matcher_selector selector lm) @ '')''"

text \<open>
  The finding of step 5. The severity is \<open>Warning\<close>, and the text names the label, when the
  matcher's label is among \<open>highChurnLabels\<close>; otherwise the severity is \<open>Bug\<close>.
\<close>

definition no_match_problem :: "env \<Rightarrow> PromQLExpr \<Rightarrow> VectorSelector \<Rightarrow> timeRanges \<Rightarrow> timeRanges \<Rightarrow> string list \<Rightarrow> Matcher \<Rightarrow> Problem" where
  "no_match_problem env expr selector trs trsLabel highChurnLabels lm =
     \<lparr>Fragment = selectorString env selector, Lines = expr_Lines expr, Reporter = SeriesCheckName,
      Text = promText env (promName env) (tr_uri trsLabel) @ '' has ''
        @ quoted env (selectorString env (stripLabels selector)) @ '' metric with ''
        @ quoted env (lm_Name lm) @ '' label but there are no series matching {''
        @ matcherString env lm @ ''} in the last '' @ sinceDesc env (tr_from trs)
        @ (if lm_Name lm \<in> set highChurnLabels
           then '', '' @ quoted env (lm_Name lm) @ '' looks like a high churn label''
           else []),
      Severity = (if lm_Name lm \<in> set highChurnLabels then Warning else Bug)\<rparr>"

definition matcher_gone_problem :: "env \<Rightarrow> PromQLExpr \<Rightarrow> VectorSelector \<Rightarrow> timeRanges \<Rightarrow> timeRanges \<Rightarrow> Matcher \<Rightarrow> Problem" where
  "matcher_gone_problem env expr selector trs trsLabel lm =
     \<lparr>Fragment = selectorString env (matcher_selector selector lm), Lines = expr_Lines expr,
      Reporter = SeriesCheckName,
      Text = promText env (promName env) (tr_uri trs) @ '' has ''
        @ quoted env (selectorString env (stripLabels selector))
        @ '' metric but doesn'' @ [CHR 0x27] @ ''t currently have series matching {''
        @ matcherString env lm @ ''}, such series was last present ''
        @ sinceDesc env (newest trsLabel) @ '' ago'',
      Severity = Bug\<rparr>"

definition matcher_sometimes_problem :: "env \<Rightarrow> PromQLExpr \<Rightarrow> VectorSelector \<Rightarrow> timeRanges \<Rightarrow> timeRanges \<Rightarrow> Matcher \<Rightarrow> Problem" where
  "matcher_sometimes_problem env expr selector trs trsLabel lm =
     \<lparr>Fragment = selectorString env selector, Lines = expr_Lines expr, Reporter = SeriesCheckName,
      Text = ''metric '' @ quoted env (selectorString env (stripLabels selector)) @ '' with label {''
        @ matcherString env lm @ ''} is only sometimes present on ''
        @ promText env (promName env) (tr_uri trs) @ '' with average life span of ''
        @ HumanizeDuration env (avgLife trsLabel),
      Severity = Warning\<rparr>"

definition sometimes_problem :: "env \<Rightarrow> PromQLExpr \<Rightarrow> VectorSelector \<Rightarrow> timeRanges \<Rightarrow> Problem" where
  "sometimes_problem env expr selector trs =
     \<lparr>Fragment = selectorString env (stripLabels selector), Lines = expr_Lines expr,
      Reporter = SeriesCheckName,
      Text = ''metric '' @ quoted env (selectorString env (stripLabels selector))
        @ '' is only sometimes present on '' @ promText env (promName env) (tr_uri trs)
        @ '' with average life span of '' @ HumanizeDuration env (avgLife trs) @ '' in the last ''
        @ sinceDesc env (tr_from trs),
      Severity = Warning\<rparr>"

text \<open>
  Steps 6 and 7 for one matcher whose range query answered with at least one range. The test
  of step 6 is the source's: the oldest start is compared with
  \<open>until + (rangeLookback - 1) + rangeStep\<close>.
\<close>

definition matcher_present :: "env \<Rightarrow> Rule \<Rightarrow> VectorSelector \<Rightarrow> timeRanges \<Rightarrow> timeRanges \<Rightarrow> Matcher \<Rightarrow> check_state \<Rightarrow> check_state" where
  "matcher_present env rule selector trs trsLabel lm st =
     (if length (tr_ranges trsLabel) = 1
         \<and> \<not> oldest trsLabel > tr_until trsLabel + (rangeLookback - 1) + rangeStep
         \<and> newest trsLabel < tr_until trsLabel + rangeStep * - 1
      then (if \<not> newest trsLabel < tr_until trsLabel + fst (getMinAge env rule selector) * - 1
            then add_events (getMinAge_events env selector)
                   (st\<lparr>st_problems := st_problems st @ snd (getMinAge env rule selector)\<rparr>)
            else add_problem (matcher_gone_problem env (Expr rule) selector trs trsLabel lm)
                   (add_events (getMinAge_events env selector)
                      (st\<lparr>st_problems := st_problems st @ snd (getMinAge env rule selector)\<rparr>)))
      else if length (tr_ranges trsLabel) > 1
      then add_problem (matcher_sometimes_problem env (Expr rule) selector trs trsLabel lm) st
      else st)"

text \<open>One round of the per-matcher loop (steps 5 to 7).\<close>

definition matcher_step :: "env \<Rightarrow> Rule \<Rightarrow> VectorSelector \<Rightarrow> timeRanges \<Rightarrow> string list \<Rightarrow> check_state \<Rightarrow> Matcher \<Rightarrow> check_state" where
  "matcher_step env rule selector trs highChurnLabels st lm =
     (if lm_Name lm = MetricName then st
      else if lm_Type lm \<noteq> MatchEqual \<and> lm_Type lm \<noteq> MatchRegexp then st
      else if isLabelValueIgnored env rule selector (lm_Name lm)
      then add_events (map HasCommentEv
             (comment_lookups (HasComment rule) (ignore_keys env selector (lm_Name lm)))) st
      else (case serieTimeRanges env (matcher_query env selector lm) rangeLookback rangeStep of
              Inl err \<Rightarrow>
                add_problem
                  (queryProblem env err (selectorString env (matcher_selector selector lm)) (Expr rule))
                  (add_events
                     (map HasCommentEv
                        (comment_lookups (HasComment rule) (ignore_keys env selector (lm_Name lm)))
                      @ [RangeQueryEv (matcher_query env selector lm)]) st)
            | Inr trsLabel \<Rightarrow>
                (if tr_ranges trsLabel = []
                 then add_problem
                        (no_match_problem env (Expr rule) selector trs trsLabel highChurnLabels lm)
                        (add_events
                           (map HasCommentEv
                              (comment_lookups (HasComment rule) (ignore_keys env selector (lm_Name lm)))
                            @ [RangeQueryEv (matcher_query env selector lm)]) st)
                 else matcher_present env rule selector trs trsLabel lm
                        (add_events
                           (map HasCommentEv
                              (comment_lookups (HasComment rule) (ignore_keys env selector (lm_Name lm)))
                            @ [RangeQueryEv (matcher_query env selector lm)]) st))))"

text \<open>
  Steps 5 to 8: the per-matcher loop, then the test \<open>len(problems) > 0\<close> on the findings of
  the whole run, then step 8.
\<close>

definition matcher_checks :: "env \<Rightarrow> Rule \<Rightarrow> VectorSelector \<Rightarrow> timeRanges \<Rightarrow> string list \<Rightarrow> check_state \<Rightarrow> check_state" where
  "matcher_checks env rule selector trs highChurnLabels st =
     (if st_problems (foldl (matcher_step env rule selector trs highChurnLabels) st (LabelMatchers selector)) \<noteq> []
      then foldl (matcher_step env rule selector trs highChurnLabels) st (LabelMatchers selector)
      else if length (tr_ranges trs) > 1
      then add_problem (sometimes_problem env (Expr rule) selector trs)
             (foldl (matcher_step env rule selector trs highChurnLabels) st (LabelMatchers selector))
      else foldl (matcher_step env rule selector trs highChurnLabels) st (LabelMatchers selector))"

text \<open>
  Steps 4 to 8, entered after the per-label loop. The first test is the source's
  \<open>len(problems) > 0\<close>, on the findings of the whole run.
\<close>

definition deeper_checks :: "env \<Rightarrow> Rule \<Rightarrow> VectorSelector \<Rightarrow> timeRanges \<Rightarrow> string list \<Rightarrow> check_state \<Rightarrow> check_state" where
  "deeper_checks env rule selector trs highChurnLabels st =
     (if st_problems st \<noteq> [] then st
      else if length (tr_ranges trs) = 1
         \<and> \<not> oldest trs > tr_from trs + rangeStep
         \<and> newest trs < tr_until trs + rangeStep * - 1
      then (if \<not> newest trs < tr_until trs + fst (getMinAge env rule selector) * - 1
            then add_events (getMinAge_events env selector)
                   (st\<lparr>st_problems := st_problems st @ snd (getMinAge env rule selector)\<rparr>)
            else add_problem (disappeared_problem env (Expr rule) selector trs)
                   (add_events (getMinAge_events env selector)
                      (st\<lparr>st_problems := st_problems st @ snd (getMinAge env rule selector)\<rparr>)))
      else matcher_checks env rule selector trs highChurnLabels st)"

subsection \<open>Steps 1 and 2, and the loop over the selectors\<close>

definition rrEntry :: "Entry list \<Rightarrow> string \<Rightarrow> Entry option" where
  "rrEntry entries bare =
     find (\<lambda>entry. RecordingRule entry \<noteq> None \<and> RuleError entry = None \<and> RecordingRule entry = Some bare)
       entries"

definition never_problem :: "env \<Rightarrow> PromQLExpr \<Rightarrow> Entry list \<Rightarrow> VectorSelector \<Rightarrow> timeRanges \<Rightarrow> Problem" where
  "never_problem env expr entries selector trs =
     \<lparr>Fragment = selectorString env (stripLabels selector), Lines = expr_Lines expr,
      Reporter = SeriesCheckName,
      Text = promText env (promName env) (tr_uri trs) @ '' didn'' @ [CHR 0x27] @ ''t have any series for ''
        @ quoted env (selectorString env (stripLabels selector)) @ '' metric in the last ''
        @ sinceDesc env (tr_from trs)
        @ (if rrEntry entries (selectorString env (stripLabels selector)) \<noteq> None
           then '' but found recording rule that generates it, skipping further checks'' else []),
      Severity = (if rrEntry entries (selectorString env (stripLabels selector)) \<noteq> None
                  then Information else Bug)\<rparr>"

definition instant_query :: "env \<Rightarrow> VectorSelector \<Rightarrow> string" where
  "instant_query env selector = ''count('' @ selectorString env selector @ '')''"

definition bare_query :: "env \<Rightarrow> VectorSelector \<Rightarrow> string" where
  "bare_query env selector = ''count('' @ selectorString env (stripLabels selector) @ '')''"

text \<open>Steps 2 to 8, entered when the instant query answered with a count that is not positive.\<close>

definition history_check :: "env \<Rightarrow> Rule \<Rightarrow> Entry list \<Rightarrow> VectorSelector \<Rightarrow> check_state \<Rightarrow> check_state" where
  "history_check env rule entries selector st =
     (case serieTimeRanges env (bare_query env selector) rangeLookback rangeStep of
        Inl err \<Rightarrow>
          add_problem (queryProblem env err (selectorString env (stripLabels selector)) (Expr rule))
            (add_events [RangeQueryEv (bare_query env selector)] st)
      | Inr trs \<Rightarrow>
          (if tr_ranges trs = []
           then add_problem (never_problem env (Expr rule) entries selector trs)
                  (add_events [RangeQueryEv (bare_query env selector)] st)
           else deeper_checks env rule selector trs
                  (snd (label_loop env (Expr rule) selector
                          (add_events [RangeQueryEv (bare_query env selector)] st)))
                  (fst (label_loop env (Expr rule) selector
                          (add_events [RangeQueryEv (bare_query env selector)] st)))))"

text \<open>Steps 1 to 8 for a selector that is neither disabled nor an alert metric.\<close>

definition presence_check :: "env \<Rightarrow> Rule \<Rightarrow> Entry list \<Rightarrow> VectorSelector \<Rightarrow> check_state \<Rightarrow> check_state" where
  "presence_check env rule entries selector st =
     (case instantSeriesCount env (instant_query env selector) of
        Inl err \<Rightarrow>
          add_problem (queryProblem env err (selectorString env selector) (Expr rule))
            (add_events [QueryEv (instant_query env selector)] st)
      | Inr res \<Rightarrow>
          (if fst res > 0 then add_events [QueryEv (instant_query env selector)] st
           else history_check env rule entries selector
                  (add_events [QueryEv (instant_query env selector)] st)))"

text \<open>The body of the loop over the selectors, after the test of the \<open>done\<close> set.\<close>

definition check_selector :: "env \<Rightarrow> Rule \<Rightarrow> Entry list \<Rightarrow> VectorSelector \<Rightarrow> check_state \<Rightarrow> check_state" where
  "check_selector env rule entries selector st =
     (if list_ex (HasComment rule) (disable_keys env selector)
      then add_events (map HasCommentEv (comment_lookups (HasComment rule) (disable_keys env selector))) st
      else if metricName selector = ''ALERTS'' \<or> metricName selector = ''ALERTS_FOR_STATE''
      then alerts_check env (Expr rule) entries selector
             (add_events (map HasCommentEv (comment_lookups (HasComment rule) (disable_keys env selector))) st)
      else presence_check env rule entries selector
             (add_events (map HasCommentEv (comment_lookups (HasComment rule) (disable_keys env selector))) st))"

definition selector_step :: "env \<Rightarrow> Rule \<Rightarrow> Entry list \<Rightarrow> check_state \<Rightarrow> VectorSelector \<Rightarrow> check_state" where
  "selector_step env rule entries st selector =
     (if selectorString env selector \<in> st_done st then st
      else check_selector env rule entries selector
             (st\<lparr>st_done := insert (selectorString env selector) (st_done st)\<rparr>))"

definition init_state :: check_state where
  "init_state = \<lparr>st_done = {}, st_problems = [], st_trace = []\<rparr>"

text \<open>\<open>Check\<close> returns the findings, and with them the trace of what it asked.\<close>

definition Check :: "env \<Rightarrow> Rule \<Rightarrow> Entry list \<Rightarrow> Problem list \<times> event list" where
  "Check env rule entries =
     (if SyntaxError (Expr rule) \<noteq> None then ([], [])
      else (st_problems (foldl (selector_step env rule entries) init_state (getSelectors (Query (Expr rule)))),
            st_trace (foldl (selector_step env rule entries) init_state (getSelectors (Query (Expr rule))))))"

section \<open>Predicates of the statements\<close>

text \<open>A range covers a sample of label set \<open>m\<close> at \<open>ts\<close>: the test of the inner loop of \<open>serieTimeRanges\<close>.\<close>

definition covers :: "LabelSet \<Rightarrow> Time \<Rightarrow> timeRange \<Rightarrow> bool" where
  "covers m ts r = (r_labels r = m \<and> r_start r \<le> ts \<and> ts \<le> r_end r)"

text \<open>Two ranges of one label set are apart when the first ends before the second starts.\<close>

definition apart :: "timeRange \<Rightarrow> timeRange \<Rightarrow> bool" where
  "apart a b = (r_labels a \<noteq> r_labels b \<or> r_end a < r_start b)"

text \<open>The samples of a range query's answer in the order \<open>serieTimeRanges\<close> reads them.\<close>

definition flat_samples :: "SampleStream list \<Rightarrow> (LabelSet \<times> Time) list" where
  "flat_samples samples = concat (map (\<lambda>s. map (\<lambda>v. (Metric s, Timestamp_Time v)) (Values s)) samples)"

text \<open>The samples of every label set come in the order of their timestamps.\<close>

fun time_ordered :: "(LabelSet \<times> Time) list \<Rightarrow> bool" where
  "time_ordered [] = True"
| "time_ordered (p # ps) = (list_all (\<lambda>q. fst q \<noteq> fst p \<or> snd p \<le> snd q) ps \<and> time_ordered ps)"

text \<open>
  The reading of one min-age directive as the specification words it: the duration of the
  directive under a key when it is present and parses, and the warning it costs when it is
  present and does not parse.
\<close>

definition directive_duration :: "env \<Rightarrow> Rule \<Rightarrow> string list \<Rightarrow> Duration option" where
  "directive_duration env rule key =
     (case GetComment rule key of
        None \<Rightarrow> None
      | Some cmt \<Rightarrow> (case ParseDuration env (cmt_Value cmt) of Inl err \<Rightarrow> None | Inr dur \<Rightarrow> Some dur))"

definition directive_warning :: "env \<Rightarrow> Rule \<Rightarrow> string list \<Rightarrow> Problem list" where
  "directive_warning env rule key =
     (case GetComment rule key of
        None \<Rightarrow> []
      | Some cmt \<Rightarrow>
          (case ParseDuration env (cmt_Value cmt) of
             Inl err \<Rightarrow> [parse_problem rule cmt err]
           | Inr dur \<Rightarrow> []))"

text \<open>
  The precedence of the specification: the selector's directive before the bare selector's,
  that before the reporter's, that before the default of two hours.
\<close>

definition minAge_spec :: "env \<Rightarrow> Rule \<Rightarrow> VectorSelector \<Rightarrow> Duration" where
  "minAge_spec env rule selector =
     (case directive_duration env rule (selector_key env selector) of
        Some d \<Rightarrow> d
      | None \<Rightarrow>
          (case directive_duration env rule (bare_key env selector) of
             Some d \<Rightarrow> d
           | None \<Rightarrow>
               (case directive_duration env rule reporter_key of
                  Some d \<Rightarrow> d
                | None \<Rightarrow> Hour * 2)))"

text \<open>
  A matcher that the per-matcher loop queries: not the metric name, an equal or a regexp
  matcher, and not ignored by a directive.
\<close>

definition checked_matcher :: "env \<Rightarrow> Rule \<Rightarrow> VectorSelector \<Rightarrow> Matcher \<Rightarrow> bool" where
  "checked_matcher env rule selector lm =
     (lm_Name lm \<noteq> MetricName \<and> (lm_Type lm = MatchEqual \<or> lm_Type lm = MatchRegexp)
      \<and> \<not> isLabelValueIgnored env rule selector (lm_Name lm))"

text \<open>
  Two findings are the finding of step 5 for one matcher, the first under the high-churn
  labels \<open>hc\<close> and the second under none.
\<close>

definition step5_pair :: "env \<Rightarrow> PromQLExpr \<Rightarrow> VectorSelector \<Rightarrow> string list \<Rightarrow> Problem \<Rightarrow> Problem \<Rightarrow> bool" where
  "step5_pair env expr selector hc p p' =
     (\<exists>trs trsLabel lm. p = no_match_problem env expr selector trs trsLabel hc lm
        \<and> p' = no_match_problem env expr selector trs trsLabel [] lm)"

text \<open>Two states that differ at most in findings of step 5.\<close>

definition same_but_step5 :: "env \<Rightarrow> PromQLExpr \<Rightarrow> VectorSelector \<Rightarrow> string list \<Rightarrow> check_state \<Rightarrow> check_state \<Rightarrow> bool" where
  "same_but_step5 env expr selector hc a b =
     (st_done a = st_done b \<and> st_trace a = st_trace b
      \<and> list_all2 (\<lambda>p p'. p = p' \<or> step5_pair env expr selector hc p p') (st_problems a) (st_problems b))"

section \<open>Example collaborators\<close>

text \<open>
  A rule over a query whose leaves are the given selectors, with the comments that
  \<open>HasComment\<close> finds and the directives that \<open>GetComment\<close> finds.
\<close>

definition example_rule :: "error option \<Rightarrow> VectorSelector list \<Rightarrow> string list \<Rightarrow> (string list \<times> Comment) list \<Rightarrow> Rule" where
  "example_rule err selectors comments directives =
     \<lparr>Expr = \<lparr>SyntaxError = err,
              Query = PromQLNode None (map (\<lambda>sel. PromQLNode (Some sel) []) selectors),
              expr_Lines = [1]\<rparr>,
      LineRange = [1],
      HasComment = (\<lambda>s. s \<in> set comments),
      GetComment = map_of directives\<rparr>"

text \<open>The selector \<open>name{label="value"}\<close>, and the bare selector \<open>name\<close>.\<close>

definition eq_selector :: "string \<Rightarrow> string \<Rightarrow> string \<Rightarrow> VectorSelector" where
  "eq_selector name label v =
     \<lparr>Name = name,
      LabelMatchers = [\<lparr>lm_Type = MatchEqual, lm_Name = MetricName, lm_Value = name\<rparr>,
                       \<lparr>lm_Type = MatchEqual, lm_Name = label, lm_Value = v\<rparr>]\<rparr>"

definition name_selector :: "string \<Rightarrow> VectorSelector" where
  "name_selector name =
     \<lparr>Name = name, LabelMatchers = [\<lparr>lm_Type = MatchEqual, lm_Name = MetricName, lm_Value = name\<rparr>]\<rparr>"

text \<open>
  A rendering of matchers and selectors in the style of the query language, a duration parser
  that knows a few strings, and backends that answer from a table. They stand for the
  collaborators where a statement is evaluated on a concrete run.
\<close>

fun join_comma :: "string list \<Rightarrow> string" where
  "join_comma [] = []"
| "join_comma [x] = x"
| "join_comma (x # y # ys) = x @ '','' @ join_comma (y # ys)"

definition render_matcher :: "Matcher \<Rightarrow> string" where
  "render_matcher lm =
     lm_Name lm
     @ (case lm_Type lm of MatchEqual \<Rightarrow> ''='' | MatchNotEqual \<Rightarrow> ''!=''
        | MatchRegexp \<Rightarrow> ''=~'' | MatchNotRegexp \<Rightarrow> ''!~'')
     @ [CHR 0x22] @ lm_Value lm @ [CHR 0x22]"

definition shown_matchers :: "VectorSelector \<Rightarrow> Matcher list" where
  "shown_matchers sel =
     filter (\<lambda>lm. \<not> (lm_Name lm = MetricName \<and> lm_Type lm = MatchEqual \<and> lm_Value lm = Name sel))
       (LabelMatchers sel)"

definition render_selector :: "VectorSelector \<Rightarrow> string" where
  "render_selector sel =
     Name sel
     @ (if shown_matchers sel = [] then []
        else ''{'' @ join_comma (map render_matcher (shown_matchers sel)) @ ''}'')"

definition example_ParseDuration :: "string \<Rightarrow> error + Duration" where
  "example_ParseDuration s =
     (case map_of [(''1h'', Hour), (''30m'', 30 * Minute), (''1d'', 24 * Hour)] s of
        Some d \<Rightarrow> Inr d
      | None \<Rightarrow> Inl (''not a valid duration string: '' @ s))"

definition table_answer :: "(string \<times> (error + 'a)) list \<Rightarrow> string \<Rightarrow> error + 'a" where
  "table_answer table query =
     (case map_of table query of Some r \<Rightarrow> r | None \<Rightarrow> Inl ''connection refused'')"

definition example_env :: "(string \<times> (error + QueryResult)) list \<Rightarrow> (string \<times> (error + RangeQueryResult)) list \<Rightarrow> env" where
  "example_env instant ranged =
     \<lparr>promName = ''prom'',
      promQuery = table_answer instant,
      promRangeQuery = (\<lambda>query lookback stp. table_answer ranged query),
      textAndSeverityFromError = (\<lambda>err reporter prom s. (prom @ '' failed with: '' @ err, s)),
      promText = (\<lambda>name uri. name @ '' at '' @ uri),
      HumanizeDuration = (\<lambda>d. if d < Hour then ''minutes'' else ''hours''),
      ParseDuration = example_ParseDuration,
      selectorString = render_selector,
      matcherString = render_matcher,
      Since = (\<lambda>t. 1000 * Hour - t),
      Round = (\<lambda>d m. d),
      quoted = (\<lambda>s. [CHR 0x22] @ s @ [CHR 0x22])\<rparr>"

text \<open>A range query's answer over the window \<open>[0, 168 h]\<close> with the given streams.\<close>

definition week_answer :: "SampleStream list \<Rightarrow> error + RangeQueryResult" where
  "week_answer samples =
     Inr \<lparr>rq_URI = ''http://prom'', rq_Start = 0, rq_End = rangeLookback, rq_Samples = samples\<rparr>"

text \<open>
  The selector \<open>up{job="api"}\<close> and the queries the check sends for it under the example
  rendering: the per-label query of step 3 and the per-matcher query of step 5.
\<close>

definition up_job :: VectorSelector where
  "up_job = eq_selector ''up'' ''job'' ''api''"

definition up_job_label_query :: string where
  "up_job_label_query = ''count('' @ render_selector (label_selector up_job ''job'') @ '') by (job)''"

definition up_job_matcher_query :: string where
  "up_job_matcher_query =
     ''count('' @ render_selector
        (matcher_selector up_job \<lparr>lm_Type = MatchEqual, lm_Name = ''job'', lm_Value = ''api''\<rparr>) @ '')''"

text \<open>A stream of \<open>n\<close> samples five minutes apart, the first at \<open>first\<close> milliseconds.\<close>

definition steady_stream :: "LabelSet \<Rightarrow> int \<Rightarrow> nat \<Rightarrow> SampleStream" where
  "steady_stream m first n = \<lparr>Metric = m, Values = map (\<lambda>k. first + int k * 300000) [0..<n]\<rparr>"

text \<open>
  A backend for the selector \<open>up\<close>: the instant query returns no series, and over the week
  the metric was there for the first \<open>n\<close> steps of five minutes. A rule over \<open>up\<close> with the
  given directives.
\<close>

definition up_env :: "nat \<Rightarrow> env" where
  "up_env n =
     example_env [(''count(up)'', Inr \<lparr>q_URI = ''http://prom'', q_Series = []\<rparr>)]
       [(''count(up)'', week_answer [steady_stream Map.empty 0 n])]"

definition up_rule :: "(string list \<times> Comment) list \<Rightarrow> Rule" where
  "up_rule directives = example_rule None [name_selector ''up''] [] directives"

text \<open>
  A backend for the selector \<open>up{job="api"}\<close>: the instant query returns no series, the
  metric \<open>up\<close> was there all week, and the per-label query and the per-matcher query are
  answered with the given streams. A rule over that selector.
\<close>

definition up_job_env :: "SampleStream list \<Rightarrow> SampleStream list \<Rightarrow> env" where
  "up_job_env by_job matching =
     example_env [(up_job_matcher_query, Inr \<lparr>q_URI = ''http://prom'', q_Series = []\<rparr>)]
       [(''count(up)'', week_answer [steady_stream Map.empty 0 2016]),
        (up_job_label_query, week_answer by_job),
        (up_job_matcher_query, week_answer matching)]"

definition up_job_rule :: Rule where
  "up_job_rule = example_rule None [up_job] [] []"

text \<open>
  A backend for two metrics that return no series now: \<open>gone\<close> has no sample in the week,
  \<open>flaky\<close> has two samples fifty minutes apart.
\<close>

definition gone_flaky_env :: env where
  "gone_flaky_env =
     example_env
       [(''count(gone)'', Inr \<lparr>q_URI = ''http://prom'', q_Series = []\<rparr>),
        (''count(flaky)'', Inr \<lparr>q_URI = ''http://prom'', q_Series = []\<rparr>)]
       [(''count(gone)'', week_answer []),
        (''count(flaky)'', week_answer [\<lparr>Metric = Map.empty, Values = [0, 3000000]\<rparr>])]"

text \<open>
  The ranges of an answer over the week; the range of a series that was there all week; the
  matcher \<open>job="api"\<close>.
\<close>

definition week_ranges :: "timeRange list \<Rightarrow> timeRanges" where
  "week_ranges rs =
     \<lparr>tr_uri = ''http://prom'', tr_from = 0, tr_until = rangeLookback, tr_step = rangeStep,
      tr_ranges = rs\<rparr>"

definition all_week :: timeRange where
  "all_week = \<lparr>r_labels = Map.empty, r_start = 0, r_end = rangeLookback\<rparr>"

definition job_api :: Matcher where
  "job_api = \<lparr>lm_Type = MatchEqual, lm_Name = ''job'', lm_Value = ''api''\<rparr>"

text \<open>
  The per-label answer for a label \<open>job\<close> with \<open>n\<close> values, each of them there all week:
  one stream for each value.
\<close>

definition job_value :: "nat \<Rightarrow> string" where
  "job_value k = replicate (Suc k) CHR ''j''"

definition job_range :: "nat \<Rightarrow> timeRange" where
  "job_range k = \<lparr>r_labels = [''job'' \<mapsto> job_value k], r_start = 0, r_end = rangeLookback\<rparr>"

definition many_jobs :: "nat \<Rightarrow> SampleStream list" where
  "many_jobs n = map (\<lambda>k. steady_stream [''job'' \<mapsto> job_value k] 0 2016) [0..<n]"

section \<open>Properties of the range builder\<close>

lemma add_sample_hit:
  "covers m ts r \<Longrightarrow> \<forall>p\<in>set pre. \<not> covers m ts p \<Longrightarrow>
   add_sample stp m ts (pre @ r # post) = pre @ r\<lparr>r_end := ts + stp\<rparr> # post"
  by (induction pre) (auto simp: covers_def)

lemma add_sample_miss:
  "\<forall>p\<in>set rs. \<not> covers m ts p \<Longrightarrow>
   add_sample stp m ts rs = rs @ [\<lparr>r_labels = m, r_start = ts, r_end = ts + stp\<rparr>]"
  by (induction rs) (auto simp: covers_def)

lemma build_ranges_flat:
  "build_ranges stp samples = foldl (\<lambda>acc p. add_sample stp (fst p) (snd p) acc) [] (flat_samples samples)"
proof -
  have "foldl (add_stream stp) rs samples
      = foldl (\<lambda>acc p. add_sample stp (fst p) (snd p) acc) rs (flat_samples samples)" for rs
  proof (induction samples arbitrary: rs)
    case Nil
    then show ?case by (simp add: flat_samples_def)
  next
    case (Cons s samples)
    have "add_stream stp rs s
        = foldl (\<lambda>acc p. add_sample stp (fst p) (snd p) acc) rs (map (\<lambda>v. (Metric s, Timestamp_Time v)) (Values s))"
      by (simp add: add_stream_def foldl_map)
    with Cons show ?case by (simp add: flat_samples_def)
  qed
  then show ?thesis by (simp add: build_ranges_def)
qed

lemma add_sample_cases:
  "r' \<in> set (add_sample stp m ts rs) \<Longrightarrow>
     r' \<in> set rs \<or> (r_labels r' = m \<and> r_end r' = ts + stp \<and>
        (r_start r' = ts \<or> (\<exists>r\<in>set rs. r_labels r = m \<and> r_start r = r_start r' \<and> r_start r \<le> ts)))"
  by (induction rs) (auto split: if_splits)

text \<open>
  Adding a sample keeps the ranges of every label set apart, when the ranges are at least one
  step long and no range of the sample's label set ends later than one step after the sample.
\<close>

lemma add_sample_apart:
  assumes "0 \<le> stp" "sorted_wrt apart rs"
    and "\<forall>r\<in>set rs. r_start r + stp \<le> r_end r"
    and "\<forall>r\<in>set rs. r_labels r = m \<longrightarrow> r_end r \<le> ts + stp"
  shows "sorted_wrt apart (add_sample stp m ts rs)"
  using assms
proof (induction rs)
  case Nil
  then show ?case by simp
next
  case (Cons r rs)
  show ?case
  proof (cases "r_labels r = m \<and> \<not> ts < r_start r \<and> \<not> ts > r_end r")
    case True
    have "apart (r\<lparr>r_end := ts + stp\<rparr>) r'" if "r' \<in> set rs" for r'
    proof (cases "r_labels r' = m")
      case False
      with True show ?thesis by (simp add: apart_def)
    next
      case same: True
      from Cons.prems that have "apart r r'" by simp
      with True same have "r_end r < r_start r'" by (simp add: apart_def)
      moreover from Cons.prems that same have "r_start r' + stp \<le> r_end r'" "r_end r' \<le> ts + stp" by auto
      ultimately show ?thesis using True by simp
    qed
    with True Cons.prems show ?thesis by simp
  next
    case False
    have ih: "sorted_wrt apart (add_sample stp m ts rs)"
      using Cons by simp
    have "apart r r'" if "r' \<in> set (add_sample stp m ts rs)" for r'
    proof -
      from add_sample_cases[OF that]
      consider "r' \<in> set rs" | "r_labels r' = m" "r_start r' = ts"
        | r0 where "r_labels r' = m" "r0 \<in> set rs" "r_start r0 = r_start r'" "r_labels r0 = m"
        by blast
      then show ?thesis
      proof cases
        case 1
        with Cons.prems show ?thesis by simp
      next
        case 2
        show ?thesis
        proof (cases "r_labels r = m")
          case True
          with Cons.prems have "r_start r + stp \<le> r_end r" "r_end r \<le> ts + stp" by auto
          with False True have "r_end r < ts" by auto
          with 2 show ?thesis by (simp add: apart_def)
        next
          case False
          with 2 show ?thesis by (auto simp: apart_def)
        qed
      next
        case 3
        from Cons.prems 3 have "apart r r0" by simp
        with 3 show ?thesis by (auto simp: apart_def)
      qed
    qed
    with False ih show ?thesis by auto
  qed
qed

lemma add_sample_wf:
  "0 \<le> stp \<Longrightarrow> \<forall>r\<in>set rs. r_start r + stp \<le> r_end r \<Longrightarrow>
   \<forall>r\<in>set (add_sample stp m ts rs). r_start r + stp \<le> r_end r"
  by (induction rs) auto

lemma add_sample_bound:
  assumes "r' \<in> set (add_sample stp m ts rs)" "r_labels r' = k"
    and "\<forall>r\<in>set rs. r_labels r = k \<longrightarrow> r_end r \<le> u + stp"
    and "k = m \<longrightarrow> ts \<le> u"
  shows "r_end r' \<le> u + stp"
  using add_sample_cases[OF assms(1)] assms(2-) by auto

lemma fold_samples_apart:
  assumes "0 \<le> stp"
  shows "time_ordered ps \<Longrightarrow> sorted_wrt apart rs \<Longrightarrow>
    \<forall>r\<in>set rs. r_start r + stp \<le> r_end r \<Longrightarrow>
    \<forall>r\<in>set rs. \<forall>q\<in>set ps. r_labels r = fst q \<longrightarrow> r_end r \<le> snd q + stp \<Longrightarrow>
    sorted_wrt apart (foldl (\<lambda>acc p. add_sample stp (fst p) (snd p) acc) rs ps)"
proof (induction ps arbitrary: rs)
  case Nil
  then show ?case by simp
next
  case (Cons p ps)
  let ?rs = "add_sample stp (fst p) (snd p) rs"
  have ord: "\<forall>q\<in>set ps. fst q = fst p \<longrightarrow> snd p \<le> snd q" and tl: "time_ordered ps"
    using Cons.prems(1) by (auto simp: list_all_iff)
  have 1: "sorted_wrt apart ?rs"
    using assms Cons.prems by (intro add_sample_apart) auto
  have 2: "\<forall>r\<in>set ?rs. r_start r + stp \<le> r_end r"
    using assms Cons.prems by (intro add_sample_wf) auto
  have 3: "\<forall>r\<in>set ?rs. \<forall>q\<in>set ps. r_labels r = fst q \<longrightarrow> r_end r \<le> snd q + stp"
  proof (intro ballI impI)
    fix r q assume r: "r \<in> set ?rs" and q: "q \<in> set ps" and eq: "r_labels r = fst q"
    show "r_end r \<le> snd q + stp"
    proof (rule add_sample_bound[OF r eq])
      show "\<forall>r\<in>set rs. r_labels r = fst q \<longrightarrow> r_end r \<le> snd q + stp"
        using Cons.prems(4) q by auto
      show "fst q = fst p \<longrightarrow> snd p \<le> snd q" using ord q by auto
    qed
  qed
  from Cons.IH[OF tl 1 2 3] show ?case by simp
qed

lemma build_ranges_apart:
  assumes "0 \<le> stp" "time_ordered (flat_samples samples)"
  shows "sorted_wrt apart (build_ranges stp samples)"
  unfolding build_ranges_flat using fold_samples_apart[OF assms(1) assms(2), of "[]"] by simp

lemma build_ranges_nonempty:
  assumes "0 < stp" "r \<in> set (build_ranges stp samples)"
  shows "r_start r < r_end r"
proof -
  have "\<forall>r\<in>set rs. r_start r + stp \<le> r_end r \<Longrightarrow>
    \<forall>r\<in>set (foldl (\<lambda>acc p. add_sample stp (fst p) (snd p) acc) rs ps). r_start r + stp \<le> r_end r" for rs ps
  proof (induction ps arbitrary: rs)
    case Nil
    then show ?case by simp
  next
    case (Cons p ps)
    from assms(1) have "0 \<le> stp" by simp
    from add_sample_wf[OF this Cons.prems]
    have "\<forall>r\<in>set (add_sample stp (fst p) (snd p) rs). r_start r + stp \<le> r_end r" .
    from Cons.IH[OF this] show ?case by simp
  qed
  from this[of "[]"] assms show ?thesis unfolding build_ranges_flat by fastforce
qed

lemma three_samples:
  assumes "0 \<le> stp" "map Timestamp_Time vs = [t, t + stp, t + 2 * stp]"
  shows "build_ranges stp [\<lparr>Metric = m, Values = vs\<rparr>] = [\<lparr>r_labels = m, r_start = t, r_end = t + 3 * stp\<rparr>]"
proof -
  from assms(2) obtain a b c where vs: "vs = [a, b, c]" by auto
  with assms show ?thesis by (simp add: build_ranges_def add_stream_def)
qed

lemma four_samples:
  assumes "0 < stp" "map Timestamp_Time vs = [t, t + stp, t + 2 * stp, t + 5 * stp]"
  shows "build_ranges stp [\<lparr>Metric = m, Values = vs\<rparr>]
    = [\<lparr>r_labels = m, r_start = t, r_end = t + 3 * stp\<rparr>,
       \<lparr>r_labels = m, r_start = t + 5 * stp, r_end = t + 6 * stp\<rparr>]"
proof -
  from assms(2) obtain a b c d where vs: "vs = [a, b, c, d]" by auto
  with assms show ?thesis by (simp add: build_ranges_def add_stream_def)
qed

text \<open>
  C4. \<open>serieTimeRanges\<close> builds its ranges from the answer of the range query by coalescing:
  a sample at \<open>ts\<close> extends the first range of its label set with \<open>start \<le> ts \<le> end\<close> to
  \<open>[start, ts + step)\<close>, and opens the range \<open>[ts, ts + step)\<close> when there is none. Samples at
  \<open>t\<close>, \<open>t + step\<close>, \<open>t + 2 * step\<close> give the one range \<open>[t, t + 3 * step)\<close>; a further sample
  at \<open>t + 5 * step\<close> opens a second range. When the samples of every label set come in the
  order of their timestamps, two ranges of one label set never overlap: the earlier one ends
  before the later one starts, and no range is empty. The step is positive.
\<close>

theorem serieTimeRanges_coalesces:
  assumes "0 < stp"
  shows "(promRangeQuery env query lookback stp = Inr qr \<longrightarrow>
            serieTimeRanges env query lookback stp
              = Inr \<lparr>tr_uri = rq_URI qr, tr_from = rq_Start qr, tr_until = rq_End qr, tr_step = stp,
                     tr_ranges = build_ranges stp (rq_Samples qr)\<rparr>)
       \<and> (covers m ts r \<and> (\<forall>p\<in>set pre. \<not> covers m ts p) \<longrightarrow>
            add_sample stp m ts (pre @ r # post) = pre @ r\<lparr>r_end := ts + stp\<rparr> # post)
       \<and> ((\<forall>p\<in>set rs. \<not> covers m ts p) \<longrightarrow>
            add_sample stp m ts rs = rs @ [\<lparr>r_labels = m, r_start = ts, r_end = ts + stp\<rparr>])
       \<and> (map Timestamp_Time vs = [t, t + stp, t + 2 * stp] \<longrightarrow>
            build_ranges stp [\<lparr>Metric = m, Values = vs\<rparr>]
              = [\<lparr>r_labels = m, r_start = t, r_end = t + 3 * stp\<rparr>])
       \<and> (map Timestamp_Time ws = [t, t + stp, t + 2 * stp, t + 5 * stp] \<longrightarrow>
            build_ranges stp [\<lparr>Metric = m, Values = ws\<rparr>]
              = [\<lparr>r_labels = m, r_start = t, r_end = t + 3 * stp\<rparr>,
                 \<lparr>r_labels = m, r_start = t + 5 * stp, r_end = t + 6 * stp\<rparr>])
       \<and> (time_ordered (flat_samples samples) \<longrightarrow>
            (\<forall>i j. i < j \<and> j < length (build_ranges stp samples)
                 \<and> r_labels (build_ranges stp samples ! i) = r_labels (build_ranges stp samples ! j)
               \<longrightarrow> r_end (build_ranges stp samples ! i) < r_start (build_ranges stp samples ! j))
            \<and> (\<forall>r\<in>set (build_ranges stp samples). r_start r < r_end r))"
proof (intro conjI impI)
  show "serieTimeRanges env query lookback stp
      = Inr \<lparr>tr_uri = rq_URI qr, tr_from = rq_Start qr, tr_until = rq_End qr, tr_step = stp,
             tr_ranges = build_ranges stp (rq_Samples qr)\<rparr>"
    if "promRangeQuery env query lookback stp = Inr qr"
    using that by (simp add: serieTimeRanges_def)
  show "add_sample stp m ts (pre @ r # post) = pre @ r\<lparr>r_end := ts + stp\<rparr> # post"
    if "covers m ts r \<and> (\<forall>p\<in>set pre. \<not> covers m ts p)"
    using that add_sample_hit by blast
  show "add_sample stp m ts rs = rs @ [\<lparr>r_labels = m, r_start = ts, r_end = ts + stp\<rparr>]"
    if "\<forall>p\<in>set rs. \<not> covers m ts p"
    using that by (rule add_sample_miss)
  show "build_ranges stp [\<lparr>Metric = m, Values = vs\<rparr>] = [\<lparr>r_labels = m, r_start = t, r_end = t + 3 * stp\<rparr>]"
    if "map Timestamp_Time vs = [t, t + stp, t + 2 * stp]"
    using assms that by (intro three_samples) auto
  show "build_ranges stp [\<lparr>Metric = m, Values = ws\<rparr>]
      = [\<lparr>r_labels = m, r_start = t, r_end = t + 3 * stp\<rparr>,
         \<lparr>r_labels = m, r_start = t + 5 * stp, r_end = t + 6 * stp\<rparr>]"
    if "map Timestamp_Time ws = [t, t + stp, t + 2 * stp, t + 5 * stp]"
    using assms that by (intro four_samples) auto
  show "\<forall>i j. i < j \<and> j < length (build_ranges stp samples)
          \<and> r_labels (build_ranges stp samples ! i) = r_labels (build_ranges stp samples ! j)
        \<longrightarrow> r_end (build_ranges stp samples ! i) < r_start (build_ranges stp samples ! j)"
    if ord: "time_ordered (flat_samples samples)"
  proof (intro allI impI)
    fix i j
    assume ij: "i < j \<and> j < length (build_ranges stp samples)
      \<and> r_labels (build_ranges stp samples ! i) = r_labels (build_ranges stp samples ! j)"
    from assms have "0 \<le> stp" by simp
    from build_ranges_apart[OF this ord] ij
    have "apart (build_ranges stp samples ! i) (build_ranges stp samples ! j)"
      by (simp add: sorted_wrt_iff_nth_less)
    with ij show "r_end (build_ranges stp samples ! i) < r_start (build_ranges stp samples ! j)"
      by (simp add: apart_def)
  qed
  show "\<forall>r\<in>set (build_ranges stp samples). r_start r < r_end r"
    using assms build_ranges_nonempty by blast
qed
theorem serieTimeRanges_coalesces_witness:
  "0 < rangeStep
   \<and> serieTimeRanges
        (example_env [] [(''count(up)'', week_answer [\<lparr>Metric = Map.empty, Values = [0, 300000, 600000]\<rparr>])])
        ''count(up)'' rangeLookback rangeStep
      = Inr \<lparr>tr_uri = ''http://prom'', tr_from = 0, tr_until = rangeLookback, tr_step = rangeStep,
             tr_ranges = [\<lparr>r_labels = Map.empty, r_start = 0, r_end = 3 * rangeStep\<rparr>]\<rparr>
   \<and> add_sample rangeStep Map.empty rangeStep [\<lparr>r_labels = Map.empty, r_start = 0, r_end = rangeStep\<rparr>]
      = [\<lparr>r_labels = Map.empty, r_start = 0, r_end = 2 * rangeStep\<rparr>]
   \<and> add_sample rangeStep Map.empty rangeStep [\<lparr>r_labels = Map.empty, r_start = 3 * rangeStep, r_end = 4 * rangeStep\<rparr>]
      = [\<lparr>r_labels = Map.empty, r_start = 3 * rangeStep, r_end = 4 * rangeStep\<rparr>,
         \<lparr>r_labels = Map.empty, r_start = rangeStep, r_end = 2 * rangeStep\<rparr>]
   \<and> build_ranges rangeStep [\<lparr>Metric = Map.empty, Values = [0, 300000, 600000]\<rparr>]
      = [\<lparr>r_labels = Map.empty, r_start = 0, r_end = 3 * rangeStep\<rparr>]
   \<and> build_ranges rangeStep [\<lparr>Metric = Map.empty, Values = [0, 300000, 600000, 1500000]\<rparr>]
      = [\<lparr>r_labels = Map.empty, r_start = 0, r_end = 3 * rangeStep\<rparr>,
         \<lparr>r_labels = Map.empty, r_start = 5 * rangeStep, r_end = 6 * rangeStep\<rparr>]
   \<and> r_end (build_ranges rangeStep [\<lparr>Metric = Map.empty, Values = [0, 300000, 600000, 1500000]\<rparr>] ! 0)
      < r_start (build_ranges rangeStep [\<lparr>Metric = Map.empty, Values = [0, 300000, 600000, 1500000]\<rparr>] ! 1)"
  using serieTimeRanges_coalesces
    [where stp = rangeStep
       and env = "example_env [] [(''count(up)'', week_answer [\<lparr>Metric = Map.empty, Values = [0, 300000, 600000]\<rparr>])]"
       and query = "''count(up)''" and lookback = rangeLookback
       and qr = "\<lparr>rq_URI = ''http://prom'', rq_Start = 0, rq_End = rangeLookback,
                  rq_Samples = [\<lparr>Metric = Map.empty, Values = [0, 300000, 600000]\<rparr>]\<rparr>"
       and m = Map.empty and ts = rangeStep
       and r = "\<lparr>r_labels = Map.empty, r_start = 0, r_end = rangeStep\<rparr>"
       and pre = "[]" and post = "[]"
       and rs = "[\<lparr>r_labels = Map.empty, r_start = 3 * rangeStep, r_end = 4 * rangeStep\<rparr>]"
       and vs = "[0, 300000, 600000]" and t = 0
       and ws = "[0, 300000, 600000, 1500000]"
       and samples = "[\<lparr>Metric = Map.empty, Values = [0, 300000, 600000, 1500000]\<rparr>]"]
  by (simp add: rangeStep_def Minute_def Second_def covers_def Timestamp_Time_def flat_samples_def
      example_env_def table_answer_def week_answer_def)

subsection \<open>Steady streams\<close>

text \<open>Samples one step apart coalesce into a single range, however many they are.\<close>

lemma steady_run:
  "foldl (\<lambda>acc v. add_sample rangeStep m (Timestamp_Time v) acc) []
     (map (\<lambda>k. a + int k * 300000) [0..<Suc n])
   = [\<lparr>r_labels = m, r_start = a * 1000000, r_end = a * 1000000 + (int n + 1) * rangeStep\<rparr>]"
proof (induction n)
  case 0
  then show ?case by (simp add: Timestamp_Time_def)
next
  case (Suc n)
  have "[0..<Suc (Suc n)] = [0..<Suc n] @ [Suc n]" by simp
  then have "foldl (\<lambda>acc v. add_sample rangeStep m (Timestamp_Time v) acc) []
     (map (\<lambda>k. a + int k * 300000) [0..<Suc (Suc n)])
    = add_sample rangeStep m (Timestamp_Time (a + int (Suc n) * 300000))
        [\<lparr>r_labels = m, r_start = a * 1000000, r_end = a * 1000000 + (int n + 1) * rangeStep\<rparr>]"
    using Suc by (simp only: map_append foldl_append list.map foldl.simps)
  also have "\<dots> = [\<lparr>r_labels = m, r_start = a * 1000000,
                     r_end = a * 1000000 + (int (Suc n) + 1) * rangeStep\<rparr>]"
    by (simp add: Timestamp_Time_def rangeStep_def Minute_def Second_def algebra_simps)
  finally show ?case .
qed

lemma steady_stream_ranges:
  assumes "0 < n"
  shows "build_ranges rangeStep [steady_stream m a n]
       = [\<lparr>r_labels = m, r_start = a * 1000000, r_end = a * 1000000 + int n * rangeStep\<rparr>]"
proof -
  from assms obtain k where n: "n = Suc k" by (cases n) auto
  show ?thesis
    unfolding n build_ranges_def add_stream_def steady_stream_def
    using steady_run[of m a k] by (simp del: upt_Suc add: algebra_simps)
qed

section \<open>Properties of the directives\<close>

lemma minAge_step_result:
  "minAge_step env rule acc key =
     ((case directive_duration env rule key of Some d \<Rightarrow> d | None \<Rightarrow> fst acc),
      snd acc @ directive_warning env rule key)"
  by (cases acc)
     (simp add: minAge_step_def directive_duration_def directive_warning_def
        split: option.splits sum.splits)

text \<open>
  C6. \<open>getMinAge\<close> starts from two hours and probes, in this order, the reporter's directive,
  the bare selector's and the selector's; each directive that is present and parses replaces
  the value, so the result follows the precedence selector, bare selector, reporter, default.
  A directive that is present and does not parse adds one finding of severity \<open>Warning\<close> and
  leaves the value as it was; the other directives add nothing.
\<close>

theorem getMinAge_precedence:
  "getMinAge env rule selector
     = (minAge_spec env rule selector,
        directive_warning env rule reporter_key
        @ directive_warning env rule (bare_key env selector)
        @ directive_warning env rule (selector_key env selector))
   \<and> getMinAge_events env selector
     = [GetCommentEv reporter_key, GetCommentEv (bare_key env selector),
        GetCommentEv (selector_key env selector)]
   \<and> (GetComment rule key = None \<longrightarrow> minAge_step env rule (d, ps) key = (d, ps))
   \<and> (GetComment rule key = Some cmt \<and> ParseDuration env (cmt_Value cmt) = Inr dur
        \<longrightarrow> minAge_step env rule (d, ps) key = (dur, ps))
   \<and> (GetComment rule key = Some cmt \<and> ParseDuration env (cmt_Value cmt) = Inl err
        \<longrightarrow> minAge_step env rule (d, ps) key = (d, ps @ [parse_problem rule cmt err])
          \<and> Severity (parse_problem rule cmt err) = Warning)"
proof (intro conjI impI)
  show "getMinAge env rule selector
     = (minAge_spec env rule selector,
        directive_warning env rule reporter_key
        @ directive_warning env rule (bare_key env selector)
        @ directive_warning env rule (selector_key env selector))"
    by (simp add: getMinAge_def minAge_keys_def minAge_step_result minAge_spec_def
        split: option.splits)
  show "getMinAge_events env selector
     = [GetCommentEv reporter_key, GetCommentEv (bare_key env selector),
        GetCommentEv (selector_key env selector)]"
    by (simp add: getMinAge_events_def minAge_keys_def)
qed (simp_all add: minAge_step_def parse_problem_def)

theorem getMinAge_precedence_witness:
  "getMinAge (example_env [] [])
     (example_rule None [name_selector ''up'']  []
        [(reporter_key, \<lparr>cmt_Value = ''1d'', cmt_String = ''rule/set promql/series min-age 1d''\<rparr>),
         (bare_key (example_env [] []) (name_selector ''up''),
          \<lparr>cmt_Value = ''1h'', cmt_String = ''rule/set promql/series(up) min-age 1h''\<rparr>),
         (selector_key (example_env [] []) (eq_selector ''up'' ''job'' ''api''),
          \<lparr>cmt_Value = ''soon'', cmt_String = ''rule/set promql/series(up{job=api}) min-age soon''\<rparr>)])
     (eq_selector ''up'' ''job'' ''api'')
   = (Hour,
      [\<lparr>Fragment = ''rule/set promql/series(up{job=api}) min-age soon'', Lines = [1],
        Reporter = ''promql/series'',
        Text = ''failed to parse pint comment as duration: not a valid duration string: soon'',
        Severity = Warning\<rparr>])"
  using getMinAge_precedence
    [where env = "example_env [] []"
       and rule = "example_rule None [name_selector ''up'']  []
        [(reporter_key, \<lparr>cmt_Value = ''1d'', cmt_String = ''rule/set promql/series min-age 1d''\<rparr>),
         (bare_key (example_env [] []) (name_selector ''up''),
          \<lparr>cmt_Value = ''1h'', cmt_String = ''rule/set promql/series(up) min-age 1h''\<rparr>),
         (selector_key (example_env [] []) (eq_selector ''up'' ''job'' ''api''),
          \<lparr>cmt_Value = ''soon'', cmt_String = ''rule/set promql/series(up{job=api}) min-age soon''\<rparr>)]"
       and selector = "eq_selector ''up'' ''job'' ''api''"
       and key = reporter_key and d = 0 and ps = "[]"
       and cmt = "\<lparr>cmt_Value = ''1d'', cmt_String = ''rule/set promql/series min-age 1d''\<rparr>"
       and dur = "24 * Hour" and err = "''none''"]
  by (simp add: minAge_spec_def directive_duration_def directive_warning_def example_rule_def
      example_env_def example_ParseDuration_def reporter_key_def bare_key_def selector_key_def
      SeriesCheckName_def render_selector_def shown_matchers_def render_matcher_def
      eq_selector_def name_selector_def stripLabels_def MetricName_def parse_problem_def
      Hour_def Minute_def Second_def)

section \<open>Properties of the pipeline\<close>

text \<open>
  C10. When the expression of the rule carries a syntax error, \<open>Check\<close> returns no finding,
  and its trace is empty: it asks the backend nothing and looks no directive up.
\<close>

theorem Check_syntax_error:
  "SyntaxError (Expr rule) \<noteq> None \<Longrightarrow> Check env rule entries = ([], [])"
  by (simp add: Check_def)

theorem Check_syntax_error_witness:
  "SyntaxError (Expr (example_rule (Some ''unexpected end of input'') [name_selector ''up'']
      [''disable promql/series(up)''] [])) \<noteq> None
   \<and> Check (example_env [(''count(up)'', Inl ''timeout'')] [])
       (example_rule (Some ''unexpected end of input'') [name_selector ''up'']
          [''disable promql/series(up)''] [])
       []
     = ([], [])"
  using Check_syntax_error
    [of "example_rule (Some ''unexpected end of input'') [name_selector ''up'']
          [''disable promql/series(up)''] []"
        "example_env [(''count(up)'', Inl ''timeout'')] []" "[]"]
  by (simp add: example_rule_def)

section \<open>Properties of the alert metrics\<close>

lemma comment_lookups_none:
  "\<not> list_ex has ks \<Longrightarrow> comment_lookups has ks = ks"
  by (induction ks) auto

lemma last_match_foldl:
  "foldl (\<lambda>a lm. if P lm then lm_Value lm else a) a0 xs
     = (case rev (filter P xs) of [] \<Rightarrow> a0 | lm # rest \<Rightarrow> lm_Value lm)"
  by (induction xs arbitrary: a0 rule: rev_induct) (auto split: list.splits)

lemma arEntry_found:
  "(arEntry entries a \<noteq> None) = (\<exists>e\<in>set entries. AlertingRule e = Some a \<and> RuleError e = None)"
  by (auto simp: arEntry_def find_None_iff)

text \<open>
  C3, as the code has it. For a selector on \<open>ALERTS\<close> or \<open>ALERTS_FOR_STATE\<close> that no comment
  disables, the name that is cross-checked is the value of the last \<open>alertname\<close> matcher that
  is not a regexp matcher (an equal or a not-equal matcher). When that value is not empty, the
  check adds one finding: \<open>Information\<close> when an alerting rule of that name without an error is
  among the entries, \<open>Bug\<close> when none is. When there is no such matcher, or its value is empty,
  it adds no finding. In every case the trace grows by the two lookups of the disabling
  comments only: the backend is not queried.
\<close>

theorem alerts_cross_check:
  assumes "metricName selector = ''ALERTS'' \<or> metricName selector = ''ALERTS_FOR_STATE''"
    and "\<not> list_ex (HasComment rule) (disable_keys env selector)"
  shows "alertname_of selector
           = (case rev (filter (\<lambda>lm. lm_Name lm = ''alertname''
                                  \<and> (lm_Type lm = MatchEqual \<or> lm_Type lm = MatchNotEqual))
                          (LabelMatchers selector)) of
                [] \<Rightarrow> []
              | lm # rest \<Rightarrow> lm_Value lm)
       \<and> st_problems (check_selector env rule entries selector st)
           = st_problems st
             @ (if alertname_of selector = [] then []
                else if (\<exists>e\<in>set entries. AlertingRule e = Some (alertname_of selector) \<and> RuleError e = None)
                then [alert_found_problem env (Expr rule) selector (alertname_of selector)]
                else [alert_missing_problem env (Expr rule) selector (alertname_of selector)])
       \<and> Severity (alert_found_problem env (Expr rule) selector (alertname_of selector)) = Information
       \<and> Severity (alert_missing_problem env (Expr rule) selector (alertname_of selector)) = Bug
       \<and> st_trace (check_selector env rule entries selector st)
           = st_trace st @ map HasCommentEv (disable_keys env selector)"
proof -
  have eq: "(\<lambda>lm::Matcher. lm_Name lm = ''alertname'' \<and> lm_Type lm \<noteq> MatchRegexp \<and> lm_Type lm \<noteq> MatchNotRegexp)
      = (\<lambda>lm. lm_Name lm = ''alertname'' \<and> (lm_Type lm = MatchEqual \<or> lm_Type lm = MatchNotEqual))"
  proof
    fix lm :: Matcher
    show "(lm_Name lm = ''alertname'' \<and> lm_Type lm \<noteq> MatchRegexp \<and> lm_Type lm \<noteq> MatchNotRegexp)
        = (lm_Name lm = ''alertname'' \<and> (lm_Type lm = MatchEqual \<or> lm_Type lm = MatchNotEqual))"
      by (cases "lm_Type lm") auto
  qed
  have name: "alertname_of selector
           = (case rev (filter (\<lambda>lm. lm_Name lm = ''alertname''
                                  \<and> (lm_Type lm = MatchEqual \<or> lm_Type lm = MatchNotEqual))
                          (LabelMatchers selector)) of
                [] \<Rightarrow> []
              | lm # rest \<Rightarrow> lm_Value lm)"
    by (simp add: alertname_of_def last_match_foldl eq)
  have run: "check_selector env rule entries selector st
      = alerts_check env (Expr rule) entries selector
          (add_events (map HasCommentEv (disable_keys env selector)) st)"
    using assms by (simp add: check_selector_def comment_lookups_none)
  have problems: "st_problems (check_selector env rule entries selector st)
           = st_problems st
             @ (if alertname_of selector = [] then []
                else if (\<exists>e\<in>set entries. AlertingRule e = Some (alertname_of selector) \<and> RuleError e = None)
                then [alert_found_problem env (Expr rule) selector (alertname_of selector)]
                else [alert_missing_problem env (Expr rule) selector (alertname_of selector)])"
    unfolding run alerts_check_def arEntry_found
    by (auto simp: add_problem_def add_events_def)
  have trace: "st_trace (check_selector env rule entries selector st)
           = st_trace st @ map HasCommentEv (disable_keys env selector)"
    unfolding run alerts_check_def
    by (simp add: add_problem_def add_events_def)
  from name problems trace show ?thesis
    by (simp add: alert_found_problem_def alert_missing_problem_def)
qed

theorem alerts_cross_check_witness:
  "map Severity (st_problems (check_selector (example_env [] [])
      (example_rule None [eq_selector ''ALERTS'' ''alertname'' ''HighLatency''] [] [])
      [\<lparr>e_Path = ''rules.yml'', AlertingRule = Some ''HighLatency'', RecordingRule = None, RuleError = None\<rparr>]
      (eq_selector ''ALERTS'' ''alertname'' ''HighLatency'') init_state))
     = [Information]
   \<and> st_trace (check_selector (example_env [] [])
      (example_rule None [eq_selector ''ALERTS'' ''alertname'' ''HighLatency''] [] [])
      [\<lparr>e_Path = ''rules.yml'', AlertingRule = Some ''HighLatency'', RecordingRule = None, RuleError = None\<rparr>]
      (eq_selector ''ALERTS'' ''alertname'' ''HighLatency'') init_state)
     = [HasCommentEv (''disable promql/series(ALERTS{alertname='' @ [CHR 0x22] @ ''HighLatency'' @ [CHR 0x22] @ ''})''),
        HasCommentEv ''disable promql/series(ALERTS)'']"
  using alerts_cross_check
    [where selector = "eq_selector ''ALERTS'' ''alertname'' ''HighLatency''"
       and rule = "example_rule None [eq_selector ''ALERTS'' ''alertname'' ''HighLatency''] [] []"
       and env = "example_env [] []"
       and entries = "[\<lparr>e_Path = ''rules.yml'', AlertingRule = Some ''HighLatency'', RecordingRule = None, RuleError = None\<rparr>]"
       and st = init_state]
  by (simp add: metricName_def eq_selector_def disable_keys_def example_rule_def example_env_def
      alertname_of_def init_state_def alert_found_problem_def render_selector_def
      shown_matchers_def render_matcher_def MetricName_def SeriesCheckName_def stripLabels_def)

text \<open>
  A not-equal matcher on \<open>alertname\<close> is cross-checked like an equal one: the selector
  \<open>ALERTS{alertname!="HighLatency"}\<close>, with no rule named \<open>HighLatency\<close> among the entries,
  gets a \<open>Bug\<close> finding. An equal matcher with the empty value gets none.
\<close>

theorem alerts_not_equal_counterexample:
  "map Severity (st_problems (check_selector (example_env [] [])
      (example_rule None [] [] []) []
      \<lparr>Name = ''ALERTS'',
       LabelMatchers = [\<lparr>lm_Type = MatchNotEqual, lm_Name = ''alertname'', lm_Value = ''HighLatency''\<rparr>]\<rparr>
      init_state))
     = [Bug]
   \<and> st_problems (check_selector (example_env [] [])
      (example_rule None [] [] []) []
      \<lparr>Name = ''ALERTS'',
       LabelMatchers = [\<lparr>lm_Type = MatchEqual, lm_Name = ''alertname'', lm_Value = []\<rparr>]\<rparr>
      init_state)
     = []"
  by (simp add: check_selector_def disable_keys_def example_rule_def example_env_def
      metricName_def alerts_check_def alertname_of_def arEntry_def add_problem_def add_events_def
      init_state_def alert_missing_problem_def)

section \<open>Properties of the disappearance checks\<close>

lemma oldest_single: "tr_ranges trs = [r] \<Longrightarrow> oldest trs = r_start r"
  by (simp add: oldest_def IsZero_def)

lemma newest_single: "tr_ranges trs = [r] \<Longrightarrow> newest trs = r_end r"
  by (simp add: newest_def IsZero_def)

lemma parse_warnings:
  "p \<in> set (snd (getMinAge env rule selector)) \<Longrightarrow> Severity p = Warning"
proof -
  have "\<forall>p\<in>set (directive_warning env rule key). Severity p = Warning" for key
    by (auto simp: directive_warning_def parse_problem_def split: option.splits sum.splits)
  moreover assume "p \<in> set (snd (getMinAge env rule selector))"
  moreover have "snd (getMinAge env rule selector)
      = directive_warning env rule reporter_key
        @ directive_warning env rule (bare_key env selector)
        @ directive_warning env rule (selector_key env selector)"
    by (simp add: getMinAge_def minAge_keys_def minAge_step_result)
  ultimately show ?thesis by auto
qed

text \<open>
  C7, as the code has it. Take a selector whose instant query counts no series, whose bare
  metric has exactly one range, starting no later than one step after the window opens and
  ending more than one step before it closes, and for which step 4 is reached: the findings of
  the run are still empty after the per-label loop. Then the findings for the selector are the
  warnings of \<open>getMinAge\<close> for min-age directives that do not parse, followed, when the range
  ends earlier than min-age before the window closes, by exactly one \<open>Bug\<close> finding whose text
  tells how long ago the metric was last present. When the range ends within min-age of the
  window's end there is no finding but those warnings; when all directives parse there is none
  at all. Nothing further is asked of the backend.
\<close>

theorem metric_disappearance:
  assumes "instantSeriesCount env (instant_query env selector) = Inr res" and "\<not> 0 < fst res"
    and "serieTimeRanges env (bare_query env selector) rangeLookback rangeStep = Inr trs"
    and "label_loop env (Expr rule) selector
           (add_events [RangeQueryEv (bare_query env selector)]
              (add_events [QueryEv (instant_query env selector)] st)) = (st3, hc)"
    and "st_problems st3 = []"
    and "tr_ranges trs = [r]"
    and "r_start r \<le> tr_from trs + rangeStep"
    and "r_end r < tr_until trs - rangeStep"
  shows "st_problems (presence_check env rule entries selector st)
           = snd (getMinAge env rule selector)
             @ (if r_end r < tr_until trs - fst (getMinAge env rule selector)
                then [disappeared_problem env (Expr rule) selector trs] else [])
       \<and> (\<forall>p\<in>set (snd (getMinAge env rule selector)). Severity p = Warning)
       \<and> Severity (disappeared_problem env (Expr rule) selector trs) = Bug
       \<and> Text (disappeared_problem env (Expr rule) selector trs)
           = promText env (promName env) (tr_uri trs) @ '' doesn'' @ [CHR 0x27] @ ''t currently have ''
             @ quoted env (selectorString env (stripLabels selector)) @ '', it was last present ''
             @ sinceDesc env (r_end r) @ '' ago''
       \<and> st_trace (presence_check env rule entries selector st)
           = st_trace st3 @ getMinAge_events env selector"
proof -
  have run: "presence_check env rule entries selector st = deeper_checks env rule selector trs hc st3"
    using assms(1-4,6) by (simp add: presence_check_def history_check_def)
  have cond: "length (tr_ranges trs) = 1 \<and> \<not> oldest trs > tr_from trs + rangeStep
      \<and> newest trs < tr_until trs + rangeStep * - 1"
    using assms(6-8) by (simp add: oldest_single newest_single)
  have problems: "st_problems (deeper_checks env rule selector trs hc st3)
           = snd (getMinAge env rule selector)
             @ (if r_end r < tr_until trs - fst (getMinAge env rule selector)
                then [disappeared_problem env (Expr rule) selector trs] else [])"
    using cond assms(5,6)
    by (simp add: deeper_checks_def newest_single add_problem_def add_events_def)
  have trace: "st_trace (deeper_checks env rule selector trs hc st3)
           = st_trace st3 @ getMinAge_events env selector"
    using cond assms(5,6)
    by (simp add: deeper_checks_def newest_single add_problem_def add_events_def)
  have msg: "Text (disappeared_problem env (Expr rule) selector trs)
           = promText env (promName env) (tr_uri trs) @ '' doesn'' @ [CHR 0x27] @ ''t currently have ''
             @ quoted env (selectorString env (stripLabels selector)) @ '', it was last present ''
             @ sinceDesc env (r_end r) @ '' ago''"
    using assms(6) by (simp add: disappeared_problem_def newest_single)
  from problems trace msg parse_warnings show ?thesis
    unfolding run by (simp add: disappeared_problem_def)
qed
lemma up_env_ranges:
  "0 < n \<Longrightarrow> serieTimeRanges (up_env n) ''count(up)'' rangeLookback rangeStep
     = Inr \<lparr>tr_uri = ''http://prom'', tr_from = 0, tr_until = rangeLookback, tr_step = rangeStep,
            tr_ranges = [\<lparr>r_labels = Map.empty, r_start = 0, r_end = int n * rangeStep\<rparr>]\<rparr>"
  by (simp add: serieTimeRanges_def up_env_def example_env_def table_answer_def week_answer_def
      steady_stream_ranges)

lemma up_queries:
  "instant_query (up_env n) (name_selector ''up'') = ''count(up)''"
  "bare_query (up_env n) (name_selector ''up'') = ''count(up)''"
  "instantSeriesCount (up_env n) ''count(up)'' = Inr (0, ''http://prom'')"
  "labelNames (name_selector ''up'') = []"
  by (simp_all add: instant_query_def bare_query_def up_env_def example_env_def table_answer_def
      instantSeriesCount_def render_selector_def shown_matchers_def name_selector_def
      stripLabels_def MetricName_def labelNames_def)

theorem metric_disappearance_witness:
  "map Severity (st_problems (presence_check (up_env 1000) (up_rule []) [] (name_selector ''up'') init_state))
     = [Bug]
   \<and> st_trace (presence_check (up_env 1000) (up_rule []) [] (name_selector ''up'') init_state)
     = [QueryEv ''count(up)'', RangeQueryEv ''count(up)'',
        GetCommentEv [''rule/set'', ''promql/series'', ''min-age''],
        GetCommentEv [''rule/set'', ''promql/series(up)'', ''min-age''],
        GetCommentEv [''rule/set'', ''promql/series(up)'', ''min-age'']]"
proof -
  have ranges: "serieTimeRanges (up_env 1000) (bare_query (up_env 1000) (name_selector ''up''))
      rangeLookback rangeStep
     = Inr \<lparr>tr_uri = ''http://prom'', tr_from = 0, tr_until = rangeLookback, tr_step = rangeStep,
            tr_ranges = [\<lparr>r_labels = Map.empty, r_start = 0, r_end = int 1000 * rangeStep\<rparr>]\<rparr>"
    by (simp only: up_queries up_env_ranges zero_less_numeral)
  have count: "instantSeriesCount (up_env 1000) (instant_query (up_env 1000) (name_selector ''up''))
      = Inr (0, ''http://prom'')"
    by (simp only: up_queries)
  have loop: "label_loop (up_env 1000) (Expr (up_rule [])) (name_selector ''up'')
           (add_events [RangeQueryEv (bare_query (up_env 1000) (name_selector ''up''))]
              (add_events [QueryEv (instant_query (up_env 1000) (name_selector ''up''))] init_state))
      = (\<lparr>st_done = {}, st_problems = [],
          st_trace = [QueryEv ''count(up)'', RangeQueryEv ''count(up)'']\<rparr>, [])"
    by (simp add: label_loop_def up_queries add_events_def init_state_def)
  have minAge: "getMinAge (up_env 1000) (up_rule []) (name_selector ''up'') = (Hour * 2, [])"
    by (simp add: getMinAge_def minAge_keys_def minAge_step_def up_rule_def example_rule_def)
  have keys: "getMinAge_events (up_env 1000) (name_selector ''up'')
      = [GetCommentEv [''rule/set'', ''promql/series'', ''min-age''],
         GetCommentEv [''rule/set'', ''promql/series(up)'', ''min-age''],
         GetCommentEv [''rule/set'', ''promql/series(up)'', ''min-age'']]"
    by (simp add: getMinAge_events_def minAge_keys_def reporter_key_def bare_key_def
        selector_key_def SeriesCheckName_def up_env_def example_env_def render_selector_def
        shown_matchers_def name_selector_def stripLabels_def MetricName_def)
  from metric_disappearance[OF count _ ranges loop, where entries = "[]"] minAge keys
  show ?thesis
    by (simp add: rangeLookback_def rangeStep_def Hour_def Minute_def Second_def
        disappeared_problem_def)
qed

text \<open>
  The metric \<open>up\<close> was last seen 80 minutes before the window closes, within the default
  min-age of two hours, and the rule carries a min-age directive that does not parse: the
  check reports the \<open>Warning\<close> of the directive for the selector.
\<close>

theorem metric_disappearance_counterexample:
  "rangeLookback - Hour * 2 \<le> 2000 * rangeStep
   \<and> map Severity (fst (Check (up_env 2000)
        (up_rule [(reporter_key, \<lparr>cmt_Value = ''soon'', cmt_String = ''rule/set promql/series min-age soon''\<rparr>)])
        []))
     = [Warning]"
proof -
  let ?rule = "up_rule [(reporter_key, \<lparr>cmt_Value = ''soon'', cmt_String = ''rule/set promql/series min-age soon''\<rparr>)]"
  have minAge: "map Severity (snd (getMinAge (up_env 2000) ?rule (name_selector ''up''))) = [Warning]"
    "fst (getMinAge (up_env 2000) ?rule (name_selector ''up'')) = Hour * 2"
    by (simp_all add: getMinAge_def minAge_keys_def minAge_step_def up_rule_def example_rule_def
        reporter_key_def bare_key_def selector_key_def SeriesCheckName_def up_env_def
        example_env_def example_ParseDuration_def render_selector_def shown_matchers_def
        name_selector_def stripLabels_def MetricName_def parse_problem_def)
  have ranges: "serieTimeRanges (up_env 2000) ''count(up)'' rangeLookback rangeStep
     = Inr \<lparr>tr_uri = ''http://prom'', tr_from = 0, tr_until = rangeLookback, tr_step = rangeStep,
            tr_ranges = [\<lparr>r_labels = Map.empty, r_start = 0, r_end = int 2000 * rangeStep\<rparr>]\<rparr>"
    by (simp only: up_env_ranges zero_less_numeral)
  have sel: "getSelectors (Query (Expr ?rule)) = [name_selector ''up'']"
    by (simp add: up_rule_def example_rule_def name_selector_def)
  have plain: "SyntaxError (Expr ?rule) = None" "\<not> list_ex (HasComment ?rule) ks" for ks
    by (simp_all add: up_rule_def example_rule_def list_ex_iff)
  have name: "metricName (name_selector ''up'') = ''up''"
    by (simp add: metricName_def name_selector_def)
  have reach: "check_selector (up_env 2000) ?rule [] (name_selector ''up'')
      (init_state\<lparr>st_done := insert (selectorString (up_env 2000) (name_selector ''up'')) (st_done init_state)\<rparr>)
      = deeper_checks (up_env 2000) ?rule (name_selector ''up'')
          \<lparr>tr_uri = ''http://prom'', tr_from = 0, tr_until = rangeLookback, tr_step = rangeStep,
            tr_ranges = [\<lparr>r_labels = Map.empty, r_start = 0, r_end = int 2000 * rangeStep\<rparr>]\<rparr>
          []
          (add_events [RangeQueryEv ''count(up)'']
            (add_events [QueryEv ''count(up)'']
              (add_events (map HasCommentEv (disable_keys (up_env 2000) (name_selector ''up'')))
                (init_state\<lparr>st_done := insert (selectorString (up_env 2000) (name_selector ''up''))
                   (st_done init_state)\<rparr>))))"
    by (simp add: check_selector_def plain name presence_check_def up_queries history_check_def
        ranges label_loop_def comment_lookups_none)
  have "map Severity (st_problems (check_selector (up_env 2000) ?rule [] (name_selector ''up'')
      (init_state\<lparr>st_done := insert (selectorString (up_env 2000) (name_selector ''up'')) (st_done init_state)\<rparr>)))
      = [Warning]"
    unfolding reach using minAge
    by (simp add: deeper_checks_def oldest_def newest_def IsZero_def zeroTime_def
        add_events_def add_problem_def init_state_def
        rangeLookback_def rangeStep_def Hour_def Minute_def Second_def)
  then have "map Severity (fst (Check (up_env 2000) ?rule [])) = [Warning]"
    by (simp add: Check_def plain sel selector_step_def init_state_def)
  then show ?thesis
    by (simp add: rangeLookback_def rangeStep_def Hour_def Minute_def Second_def)
qed

section \<open>Properties of the per-matcher loop\<close>

lemma same_but_step5_refl: "same_but_step5 env expr selector hc st st"
  by (simp add: same_but_step5_def list_all2_refl)

lemma same_but_step5_add:
  "same_but_step5 env expr selector hc a b \<Longrightarrow> p = p' \<or> step5_pair env expr selector hc p p' \<Longrightarrow>
   same_but_step5 env expr selector hc (add_problem p a) (add_problem p' b)"
  by (simp add: same_but_step5_def add_problem_def list_all2_appendI)

lemma same_but_step5_events:
  "same_but_step5 env expr selector hc a b \<Longrightarrow>
   same_but_step5 env expr selector hc (add_events evs a) (add_events evs b)"
  by (simp add: same_but_step5_def add_events_def)

lemma same_but_step5_append:
  "same_but_step5 env expr selector hc a b \<Longrightarrow>
   same_but_step5 env expr selector hc (a\<lparr>st_problems := st_problems a @ ps\<rparr>) (b\<lparr>st_problems := st_problems b @ ps\<rparr>)"
  by (simp add: same_but_step5_def list_all2_appendI list_all2_refl)

lemma same_but_step5_empty:
  "same_but_step5 env expr selector hc a b \<Longrightarrow> (st_problems a = []) = (st_problems b = [])"
  by (auto simp: same_but_step5_def)

lemma matcher_present_same:
  assumes "same_but_step5 env (Expr rule) selector hc a b"
  shows "same_but_step5 env (Expr rule) selector hc
           (matcher_present env rule selector trs trsLabel lm a)
           (matcher_present env rule selector trs trsLabel lm b)"
  unfolding matcher_present_def
  by (simp add: assms same_but_step5_add same_but_step5_events same_but_step5_append)

lemma matcher_step_same:
  assumes "same_but_step5 env (Expr rule) selector hc a b"
  shows "same_but_step5 env (Expr rule) selector hc
           (matcher_step env rule selector trs hc a lm)
           (matcher_step env rule selector trs [] b lm)"
proof -
  have pair: "step5_pair env (Expr rule) selector hc
      (no_match_problem env (Expr rule) selector trs trsLabel hc lm)
      (no_match_problem env (Expr rule) selector trs trsLabel [] lm)" for trsLabel
    unfolding step5_pair_def by blast
  show ?thesis
    unfolding matcher_step_def
    by (simp add: assms pair same_but_step5_add same_but_step5_events matcher_present_same
        split: sum.splits)
qed

lemma matcher_loop_same:
  "same_but_step5 env (Expr rule) selector hc a b \<Longrightarrow>
   same_but_step5 env (Expr rule) selector hc
     (foldl (matcher_step env rule selector trs hc) a ms)
     (foldl (matcher_step env rule selector trs []) b ms)"
  by (induction ms arbitrary: a b) (simp_all add: matcher_step_same)

lemma matcher_checks_same:
  assumes "same_but_step5 env (Expr rule) selector hc a b"
  shows "same_but_step5 env (Expr rule) selector hc
     (matcher_checks env rule selector trs hc a) (matcher_checks env rule selector trs [] b)"
proof -
  note loop = matcher_loop_same[OF assms, of trs "LabelMatchers selector"]
  from same_but_step5_empty[OF loop] loop show ?thesis
    unfolding matcher_checks_def by (simp add: same_but_step5_add)
qed

lemma deeper_checks_same:
  "same_but_step5 env (Expr rule) selector hc
     (deeper_checks env rule selector trs hc st) (deeper_checks env rule selector trs [] st)"
  unfolding deeper_checks_def
  by (simp add: same_but_step5_refl matcher_checks_same)
text \<open>
  C8. The high-churn labels of step 3 reach one finding only, that of step 5: for a matcher
  that is queried and has no range, the finding is a \<open>Warning\<close> whose text names the label as
  high-churn when the label was flagged, and a \<open>Bug\<close> without that note otherwise. The
  findings of step 6 (\<open>Bug\<close>), step 7 (\<open>Warning\<close>) and step 8 (\<open>Warning\<close>) have their severity
  whatever was flagged, and a round of the per-matcher loop for a matcher with a range does
  the same under any flags. Over the whole of steps 4 to 8, the run under the flagged labels
  and the run under none ask the same and report the same, but for findings of step 5.
\<close>

theorem churn_downgrade_step5_only:
  "(checked_matcher env rule selector lm
      \<and> serieTimeRanges env (matcher_query env selector lm) rangeLookback rangeStep = Inr trsLabel
      \<and> tr_ranges trsLabel = []
     \<longrightarrow> st_problems (matcher_step env rule selector trs hc st lm)
           = st_problems st @ [no_match_problem env (Expr rule) selector trs trsLabel hc lm])
   \<and> Severity (no_match_problem env expr selector trs trsLabel hc lm)
       = (if lm_Name lm \<in> set hc then Warning else Bug)
   \<and> Text (no_match_problem env expr selector trs trsLabel hc lm)
       = Text (no_match_problem env expr selector trs trsLabel [] lm)
         @ (if lm_Name lm \<in> set hc
            then '', '' @ quoted env (lm_Name lm) @ '' looks like a high churn label'' else [])
   \<and> Severity (matcher_gone_problem env expr selector trs trsLabel lm) = Bug
   \<and> Severity (matcher_sometimes_problem env expr selector trs trsLabel lm) = Warning
   \<and> Severity (sometimes_problem env expr selector trs) = Warning
   \<and> (checked_matcher env rule selector lm
      \<and> serieTimeRanges env (matcher_query env selector lm) rangeLookback rangeStep = Inr trsLabel
      \<and> tr_ranges trsLabel \<noteq> []
     \<longrightarrow> matcher_step env rule selector trs hc st lm = matcher_step env rule selector trs [] st lm)
   \<and> list_all2 (\<lambda>p p'. p = p' \<or> step5_pair env (Expr rule) selector hc p p')
        (st_problems (deeper_checks env rule selector trs hc st))
        (st_problems (deeper_checks env rule selector trs [] st))
   \<and> st_trace (deeper_checks env rule selector trs hc st)
       = st_trace (deeper_checks env rule selector trs [] st)"
proof -
  have absent: "st_problems (matcher_step env rule selector trs hc st lm)
           = st_problems st @ [no_match_problem env (Expr rule) selector trs trsLabel hc lm]"
    if "checked_matcher env rule selector lm
      \<and> serieTimeRanges env (matcher_query env selector lm) rangeLookback rangeStep = Inr trsLabel
      \<and> tr_ranges trsLabel = []"
    using that by (auto simp: checked_matcher_def matcher_step_def add_problem_def add_events_def)
  have present: "matcher_step env rule selector trs hc st lm = matcher_step env rule selector trs [] st lm"
    if "checked_matcher env rule selector lm
      \<and> serieTimeRanges env (matcher_query env selector lm) rangeLookback rangeStep = Inr trsLabel
      \<and> tr_ranges trsLabel \<noteq> []"
    using that by (auto simp: checked_matcher_def matcher_step_def)
  have findings:
    "Severity (no_match_problem env expr selector trs trsLabel hc lm)
       = (if lm_Name lm \<in> set hc then Warning else Bug)"
    "Text (no_match_problem env expr selector trs trsLabel hc lm)
       = Text (no_match_problem env expr selector trs trsLabel [] lm)
         @ (if lm_Name lm \<in> set hc
            then '', '' @ quoted env (lm_Name lm) @ '' looks like a high churn label'' else [])"
    "Severity (matcher_gone_problem env expr selector trs trsLabel lm) = Bug"
    "Severity (matcher_sometimes_problem env expr selector trs trsLabel lm) = Warning"
    "Severity (sometimes_problem env expr selector trs) = Warning"
    by (simp_all add: no_match_problem_def matcher_gone_problem_def
        matcher_sometimes_problem_def sometimes_problem_def)
  have whole: "list_all2 (\<lambda>p p'. p = p' \<or> step5_pair env (Expr rule) selector hc p p')
        (st_problems (deeper_checks env rule selector trs hc st))
        (st_problems (deeper_checks env rule selector trs [] st))"
    "st_trace (deeper_checks env rule selector trs hc st)
       = st_trace (deeper_checks env rule selector trs [] st)"
    using deeper_checks_same[of env rule selector hc trs st]
    by (simp_all add: same_but_step5_def)
  from absent present findings whole show ?thesis by blast
qed

section \<open>Runs of the whole check\<close>

lemma plain_rule:
  "SyntaxError (Expr (example_rule None sels [] ds)) = None"
  "\<not> list_ex (HasComment (example_rule None sels [] ds)) ks"
  "\<not> HasComment (example_rule None sels [] ds) k"
  "getSelectors (Query (Expr (example_rule None sels [] ds))) = sels"
proof -
  have "concat (map (\<lambda>sel. [\<lparr>Name = Name sel, LabelMatchers = LabelMatchers sel\<rparr>]) sels) = sels"
    by (induction sels) auto
  then show "getSelectors (Query (Expr (example_rule None sels [] ds))) = sels"
    by (simp add: example_rule_def comp_def)
qed (simp_all add: example_rule_def list_ex_iff)

lemma name_selector_facts:
  "metricName (name_selector n) = (if n = [] then [] else n)"
  "labelNames (name_selector n) = []"
  "stripLabels (name_selector n) = name_selector n"
  "render_selector (name_selector n) = n"
  "filter (\<lambda>lm. lm_Name lm \<noteq> MetricName) (LabelMatchers (name_selector n)) = []"
  by (simp_all add: metricName_def labelNames_def stripLabels_def render_selector_def
      shown_matchers_def name_selector_def)

text \<open>
  The run of one selector that is only a metric name, from any state, up to the entry of
  steps 4 to 8, when the instant query counts nothing and the range query answers.
\<close>

lemma name_selector_run:
  assumes "selectorString env = render_selector"
    and "n \<noteq> ''ALERTS''" "n \<noteq> ''ALERTS_FOR_STATE''" "n \<noteq> []"
    and "instantSeriesCount env (''count('' @ n @ '')'') = Inr (0, u)"
    and "serieTimeRanges env (''count('' @ n @ '')'') rangeLookback rangeStep = Inr trs"
    and "n \<notin> st_done st"
  shows "selector_step env (example_rule None sels [] ds) entries st (name_selector n)
       = (if tr_ranges trs = []
          then add_problem (never_problem env (Expr (example_rule None sels [] ds)) entries (name_selector n) trs)
          else deeper_checks env (example_rule None sels [] ds) (name_selector n) trs [])
           (add_events
              ([HasCommentEv (''disable promql/series('' @ n @ '')''),
                HasCommentEv (''disable promql/series('' @ n @ '')''),
                QueryEv (''count('' @ n @ '')''), RangeQueryEv (''count('' @ n @ '')'')])
              (st\<lparr>st_done := insert n (st_done st)\<rparr>))"
  using assms
  by (simp add: selector_step_def check_selector_def plain_rule name_selector_facts
      comment_lookups_none presence_check_def history_check_def instant_query_def bare_query_def
      label_loop_def disable_keys_def SeriesCheckName_def add_events_def add_problem_def)
lemma gone_flaky_answers:
  "selectorString gone_flaky_env = render_selector"
  "instantSeriesCount gone_flaky_env ''count(gone)'' = Inr (0, ''http://prom'')"
  "instantSeriesCount gone_flaky_env ''count(flaky)'' = Inr (0, ''http://prom'')"
  "serieTimeRanges gone_flaky_env ''count(gone)'' rangeLookback rangeStep
     = Inr \<lparr>tr_uri = ''http://prom'', tr_from = 0, tr_until = rangeLookback, tr_step = rangeStep,
            tr_ranges = []\<rparr>"
  "serieTimeRanges gone_flaky_env ''count(flaky)'' rangeLookback rangeStep
     = Inr \<lparr>tr_uri = ''http://prom'', tr_from = 0, tr_until = rangeLookback, tr_step = rangeStep,
            tr_ranges = [\<lparr>r_labels = Map.empty, r_start = 0, r_end = rangeStep\<rparr>,
                         \<lparr>r_labels = Map.empty, r_start = 10 * rangeStep, r_end = 11 * rangeStep\<rparr>]\<rparr>"
  by (simp_all add: gone_flaky_env_def example_env_def table_answer_def week_answer_def
      instantSeriesCount_def serieTimeRanges_def build_ranges_def add_stream_def
      Timestamp_Time_def rangeStep_def Minute_def Second_def)

lemma flaky_deeper:
  "deeper_checks gone_flaky_env (example_rule None sels [] ds) (name_selector ''flaky'')
     \<lparr>tr_uri = ''http://prom'', tr_from = 0, tr_until = rangeLookback, tr_step = rangeStep,
       tr_ranges = [\<lparr>r_labels = Map.empty, r_start = 0, r_end = rangeStep\<rparr>,
                    \<lparr>r_labels = Map.empty, r_start = 10 * rangeStep, r_end = 11 * rangeStep\<rparr>]\<rparr>
     [] st
   = (if st_problems st \<noteq> [] then st
      else add_problem
        (sometimes_problem gone_flaky_env (Expr (example_rule None sels [] ds)) (name_selector ''flaky'')
           \<lparr>tr_uri = ''http://prom'', tr_from = 0, tr_until = rangeLookback, tr_step = rangeStep,
             tr_ranges = [\<lparr>r_labels = Map.empty, r_start = 0, r_end = rangeStep\<rparr>,
                          \<lparr>r_labels = Map.empty, r_start = 10 * rangeStep, r_end = 11 * rangeStep\<rparr>]\<rparr>)
        st)"
  by (simp add: deeper_checks_def matcher_checks_def matcher_step_def name_selector_def)

text \<open>
  C1, on a run. The metric \<open>flaky\<close> was there twice in the week and is not there now: alone
  in a rule it gets the \<open>Warning\<close> of step 8. After the selector \<open>gone\<close>, whose \<open>Bug\<close> of
  step 2 is already among the findings of the run, the test \<open>len(problems) > 0\<close> that follows
  the per-label loop skips steps 4 to 8 for \<open>flaky\<close>, and the warning is not reported. With
  the two selectors in the other order both findings are reported.
\<close>

theorem earlier_findings_suppress_later_selector:
  "map (\<lambda>p. (Fragment p, Severity p))
     (fst (Check gone_flaky_env (example_rule None [name_selector ''flaky''] [] []) []))
     = [(''flaky'', Warning)]
   \<and> map (\<lambda>p. (Fragment p, Severity p))
     (fst (Check gone_flaky_env (example_rule None [name_selector ''gone'', name_selector ''flaky''] [] []) []))
     = [(''gone'', Bug)]
   \<and> map (\<lambda>p. (Fragment p, Severity p))
     (fst (Check gone_flaky_env (example_rule None [name_selector ''flaky'', name_selector ''gone''] [] []) []))
     = [(''flaky'', Warning), (''gone'', Bug)]"
  by (simp add: Check_def plain_rule init_state_def name_selector_run gone_flaky_answers
      flaky_deeper add_problem_def add_events_def never_problem_def sometimes_problem_def
      name_selector_facts rrEntry_def)

subsection \<open>Runs for the selector with one label matcher\<close>

lemma up_job_strings:
  "up_job_matcher_query = ''count(up{job='' @ [CHR 0x22] @ ''api'' @ [CHR 0x22] @ ''})''"
  "up_job_label_query = ''count(up{job=~'' @ [CHR 0x22] @ ''.+'' @ [CHR 0x22] @ ''}) by (job)''"
  "render_selector up_job = ''up{job='' @ [CHR 0x22] @ ''api'' @ [CHR 0x22] @ ''}''"
  "render_selector (stripLabels up_job) = ''up''"
  by (simp_all add: up_job_matcher_query_def up_job_label_query_def up_job_def eq_selector_def
      render_selector_def shown_matchers_def render_matcher_def matcher_selector_def
      label_selector_def metricName_def stripLabels_def MetricName_def)

lemma up_job_shape:
  "selectorString (up_job_env B M) = render_selector"
  "metricName up_job = ''up''"
  "labelNames up_job = [''job'']"
  "LabelMatchers up_job = [\<lparr>lm_Type = MatchEqual, lm_Name = MetricName, lm_Value = ''up''\<rparr>, job_api]"
  "instant_query (up_job_env B M) up_job = up_job_matcher_query"
  "bare_query (up_job_env B M) up_job = ''count(up)''"
  "label_query (up_job_env B M) up_job ''job'' = up_job_label_query"
  "matcher_query (up_job_env B M) up_job job_api = up_job_matcher_query"
  "lm_Name job_api = ''job''"
  "lm_Type job_api = MatchEqual"
  by (simp_all add: up_job_env_def example_env_def instant_query_def bare_query_def
      label_query_def matcher_query_def up_job_matcher_query_def up_job_label_query_def
      up_job_def eq_selector_def metricName_def labelNames_def MetricName_def
      render_selector_def shown_matchers_def render_matcher_def label_selector_def
      matcher_selector_def stripLabels_def job_api_def)

lemma up_job_answers:
  "instantSeriesCount (up_job_env B M) up_job_matcher_query = Inr (0, ''http://prom'')"
  "serieTimeRanges (up_job_env B M) ''count(up)'' rangeLookback rangeStep = Inr (week_ranges [all_week])"
  "serieTimeRanges (up_job_env B M) up_job_label_query rangeLookback rangeStep
     = Inr (week_ranges (build_ranges rangeStep B))"
  "serieTimeRanges (up_job_env B M) up_job_matcher_query rangeLookback rangeStep
     = Inr (week_ranges (build_ranges rangeStep M))"
  by (simp_all add: up_job_env_def example_env_def table_answer_def week_answer_def
      instantSeriesCount_def serieTimeRanges_def up_job_strings steady_stream_ranges
      week_ranges_def all_week_def)
     (simp add: rangeLookback_def rangeStep_def Hour_def Minute_def Second_def)

text \<open>
  The metric was there all week: with no finding so far, steps 4 to 8 come down to the
  per-matcher loop, and step 8 adds nothing.
\<close>

lemma all_week_deeper:
  assumes "st_problems st = []"
  shows "deeper_checks env rule selector (week_ranges [all_week]) hc st
       = foldl (matcher_step env rule selector (week_ranges [all_week]) hc) st (LabelMatchers selector)"
  using assms
  by (simp add: deeper_checks_def matcher_checks_def week_ranges_def all_week_def oldest_def
      newest_def IsZero_def zeroTime_def rangeLookback_def rangeStep_def Hour_def Minute_def
      Second_def)

lemma up_job_run:
  assumes "st_problems st = []"
    and "withLabelName (week_ranges (build_ranges rangeStep B)) ''job'' \<noteq> []"
  shows "check_selector (up_job_env B M) up_job_rule entries up_job st
       = matcher_step (up_job_env B M) up_job_rule up_job (week_ranges [all_week])
           (if highChurn (week_ranges (build_ranges rangeStep B)) ''job'' then [''job''] else [])
           (add_events [RangeQueryEv up_job_label_query]
             (add_events [RangeQueryEv ''count(up)'']
               (add_events [QueryEv up_job_matcher_query]
                 (add_events (map HasCommentEv (disable_keys (up_job_env B M) up_job)) st))))
           job_api"
proof -
  have R: "up_job_rule = example_rule None [up_job] [] []" by (simp add: up_job_rule_def)
  have some: "tr_ranges (week_ranges [all_week]) \<noteq> []" by (simp add: week_ranges_def)
  have skip: "matcher_step env rule selector trs hc s
      \<lparr>lm_Type = MatchEqual, lm_Name = MetricName, lm_Value = ''up''\<rparr> = s" for env rule selector trs hc s
    by (simp add: matcher_step_def)
  have labels: "label_loop (up_job_env B M) (Expr up_job_rule) up_job s
      = (add_events [RangeQueryEv up_job_label_query] s,
         if highChurn (week_ranges (build_ranges rangeStep B)) ''job'' then [''job''] else [])" for s
    using assms(2) by (simp add: label_loop_def up_job_shape label_step_def up_job_answers)
  have "presence_check (up_job_env B M) up_job_rule entries up_job s
       = matcher_step (up_job_env B M) up_job_rule up_job (week_ranges [all_week])
           (if highChurn (week_ranges (build_ranges rangeStep B)) ''job'' then [''job''] else [])
           (add_events [RangeQueryEv up_job_label_query]
             (add_events [RangeQueryEv ''count(up)''] (add_events [QueryEv up_job_matcher_query] s)))
           job_api"
    if "st_problems s = []" for s
    using that
    by (simp add: presence_check_def up_job_shape up_job_answers history_check_def some labels
        all_week_deeper add_events_def skip)
  with assms(1) show ?thesis
    by (simp add: check_selector_def R plain_rule comment_lookups_none up_job_shape add_events_def)
qed

lemma up_job_matcher:
  "matcher_step (up_job_env B M) up_job_rule up_job trs hc st job_api
     = (if build_ranges rangeStep M = []
        then add_problem
          (no_match_problem (up_job_env B M) (Expr up_job_rule) up_job trs (week_ranges []) hc job_api)
        else matcher_present (up_job_env B M) up_job_rule up_job trs
          (week_ranges (build_ranges rangeStep M)) job_api)
         (add_events (map HasCommentEv (ignore_keys (up_job_env B M) up_job ''job'')
                      @ [RangeQueryEv up_job_matcher_query]) st)"
proof -
  have R: "up_job_rule = example_rule None [up_job] [] []" by (simp add: up_job_rule_def)
  have ranges: "tr_ranges (week_ranges rs) = rs" for rs by (simp add: week_ranges_def)
  show ?thesis
    by (simp add: matcher_step_def up_job_shape MetricName_def isLabelValueIgnored_def
        comment_lookups_none up_job_answers ranges)
       (simp add: R plain_rule comment_lookups_none)
qed

lemma up_job_Check:
  "fst (Check (up_job_env B M) up_job_rule entries)
     = st_problems (check_selector (up_job_env B M) up_job_rule entries up_job
         (init_state\<lparr>st_done := {render_selector up_job}\<rparr>))"
  by (simp add: Check_def up_job_rule_def plain_rule selector_step_def init_state_def up_job_shape)
lemma no_directives:
  "getMinAge env (example_rule None sels [] []) selector = (Hour * 2, [])"
  by (simp add: getMinAge_def minAge_keys_def minAge_step_def example_rule_def)

text \<open>
  C2, on a run. The metric \<open>up\<close> was there all week, with a \<open>job\<close> label; series matching
  \<open>job="api"\<close> were there from hour 120 of the week to hour 144 only. The one range of
  the matcher starts five days after the window opens, and step 6 still reports it as a
  matcher that disappeared: its test compares the start of the range with
  \<open>until + (rangeLookback - 1) + rangeStep\<close>, a time after the window.
\<close>

theorem late_matcher_reported_as_disappeared:
  "serieTimeRanges
     (up_job_env [steady_stream [''job'' \<mapsto> ''web''] 0 2016] [steady_stream Map.empty 432000000 288])
     up_job_matcher_query rangeLookback rangeStep
     = Inr \<lparr>tr_uri = ''http://prom'', tr_from = 0, tr_until = 168 * Hour, tr_step = rangeStep,
            tr_ranges = [\<lparr>r_labels = Map.empty, r_start = 120 * Hour, r_end = 144 * Hour\<rparr>]\<rparr>
   \<and> map (\<lambda>p. (Fragment p, Severity p))
       (fst (Check
          (up_job_env [steady_stream [''job'' \<mapsto> ''web''] 0 2016] [steady_stream Map.empty 432000000 288])
          up_job_rule []))
     = [(''up{job='' @ [CHR 0x22] @ ''api'' @ [CHR 0x22] @ ''}'', Bug)]"
proof -
  define E where "E = up_job_env [steady_stream [''job'' \<mapsto> ''web''] 0 2016] [steady_stream Map.empty 432000000 288]"
  define TM where "TM = week_ranges [\<lparr>r_labels = Map.empty, r_start = 120 * Hour, r_end = 144 * Hour\<rparr>]"
  have B: "build_ranges rangeStep [steady_stream [''job'' \<mapsto> ''web''] 0 2016]
      = [\<lparr>r_labels = [''job'' \<mapsto> ''web''], r_start = 0, r_end = rangeLookback\<rparr>]"
    by (simp add: steady_stream_ranges) (simp add: rangeLookback_def rangeStep_def Hour_def Minute_def Second_def)
  have M: "build_ranges rangeStep [steady_stream Map.empty 432000000 288]
      = [\<lparr>r_labels = Map.empty, r_start = 120 * Hour, r_end = 144 * Hour\<rparr>]"
    by (simp add: steady_stream_ranges) (simp add: rangeStep_def Hour_def Minute_def Second_def)
  have label: "withLabelName (week_ranges [\<lparr>r_labels = [''job'' \<mapsto> ''web''], r_start = 0, r_end = rangeLookback\<rparr>]) ''job'' \<noteq> []"
    "\<not> highChurn (week_ranges [\<lparr>r_labels = [''job'' \<mapsto> ''web''], r_start = 0, r_end = rangeLookback\<rparr>]) ''job''"
    by (simp_all add: week_ranges_def withLabelName_def highChurn_def labelValues_def map_filter_def
        avgLife_def total_life_def whole_seconds_def go_div_def duration_def
        Sub_def sat64_def wrap64_def
        rangeLookback_def rangeStep_def Hour_def Minute_def Second_def)
  have gone: "matcher_present E up_job_rule up_job trs TM job_api st
       = add_problem (matcher_gone_problem E (Expr up_job_rule) up_job trs TM job_api)
           (add_events (getMinAge_events E up_job) st)" for trs st
    by (simp add: matcher_present_def up_job_rule_def no_directives)
       (simp add: TM_def week_ranges_def oldest_def newest_def IsZero_def zeroTime_def
        rangeLookback_def rangeStep_def Hour_def Minute_def Second_def)
  have frag: "Fragment (matcher_gone_problem E (Expr up_job_rule) up_job trs TM job_api)
      = ''up{job='' @ [CHR 0x22] @ ''api'' @ [CHR 0x22] @ ''}''"
    "Severity (matcher_gone_problem E (Expr up_job_rule) up_job trs TM job_api) = Bug" for trs
    by (simp_all add: matcher_gone_problem_def E_def up_job_shape matcher_selector_def
        render_selector_def shown_matchers_def render_matcher_def MetricName_def job_api_def)
  have "map (\<lambda>p. (Fragment p, Severity p)) (fst (Check E up_job_rule []))
      = [(''up{job='' @ [CHR 0x22] @ ''api'' @ [CHR 0x22] @ ''}'', Bug)]"
    unfolding E_def up_job_Check
    by (simp add: up_job_run up_job_matcher B M label init_state_def
        gone[unfolded E_def TM_def] frag[unfolded E_def TM_def] add_problem_def add_events_def)
  moreover have "serieTimeRanges E up_job_matcher_query rangeLookback rangeStep
     = Inr \<lparr>tr_uri = ''http://prom'', tr_from = 0, tr_until = 168 * Hour, tr_step = rangeStep,
            tr_ranges = [\<lparr>r_labels = Map.empty, r_start = 120 * Hour, r_end = 144 * Hour\<rparr>]\<rparr>"
    by (simp add: E_def up_job_answers M week_ranges_def) (simp add: rangeLookback_def)
  ultimately show ?thesis by (simp add: E_def)
qed

theorem churn_downgrade_step5_only_witness:
  "map (\<lambda>p. (Fragment p, Severity p))
     (fst (Check (up_job_env [steady_stream [''job'' \<mapsto> ''api''] 0 2] []) up_job_rule []))
     = [(''up{job='' @ [CHR 0x22] @ ''api'' @ [CHR 0x22] @ ''}'', Warning)]"
proof -
  define E where "E = up_job_env [steady_stream [''job'' \<mapsto> ''api''] 0 2] []"
  define st where "st = add_events [RangeQueryEv up_job_label_query]
             (add_events [RangeQueryEv ''count(up)'']
               (add_events [QueryEv up_job_matcher_query]
                 (add_events (map HasCommentEv (disable_keys E up_job))
                    (init_state\<lparr>st_done := {render_selector up_job}\<rparr>))))"
  have B: "build_ranges rangeStep [steady_stream [''job'' \<mapsto> ''api''] 0 2]
      = [\<lparr>r_labels = [''job'' \<mapsto> ''api''], r_start = 0, r_end = 2 * rangeStep\<rparr>]"
    by (simp add: steady_stream_ranges)
  have M: "build_ranges rangeStep [] = []"
    by (simp add: build_ranges_def)
  have label: "withLabelName (week_ranges [\<lparr>r_labels = [''job'' \<mapsto> ''api''], r_start = 0, r_end = 2 * rangeStep\<rparr>]) ''job'' \<noteq> []"
    "highChurn (week_ranges [\<lparr>r_labels = [''job'' \<mapsto> ''api''], r_start = 0, r_end = 2 * rangeStep\<rparr>]) ''job''"
    by (simp_all add: week_ranges_def withLabelName_def highChurn_def labelValues_def map_filter_def
        avgLife_def total_life_def whole_seconds_def go_div_def duration_def
        Sub_def sat64_def wrap64_def
        rangeLookback_def rangeStep_def Hour_def Minute_def Second_def)
  have run: "fst (Check E up_job_rule [])
      = st_problems (matcher_step E up_job_rule up_job (week_ranges [all_week]) [''job''] st job_api)"
    unfolding E_def up_job_Check st_def
    by (simp add: up_job_run B label init_state_def)
  have checked: "checked_matcher E up_job_rule up_job job_api"
    by (simp add: checked_matcher_def up_job_shape MetricName_def isLabelValueIgnored_def
        up_job_rule_def plain_rule)
  have answer: "serieTimeRanges E (matcher_query E up_job job_api) rangeLookback rangeStep
      = Inr (week_ranges [])"
    by (simp add: E_def up_job_shape up_job_answers M)
  have none: "tr_ranges (week_ranges []) = []" "st_problems st = []"
    by (simp_all add: week_ranges_def st_def add_events_def init_state_def)
  have frag: "Fragment (no_match_problem E (Expr up_job_rule) up_job (week_ranges [all_week])
        (week_ranges []) [''job''] job_api)
      = ''up{job='' @ [CHR 0x22] @ ''api'' @ [CHR 0x22] @ ''}''"
    by (simp add: no_match_problem_def E_def up_job_shape up_job_strings)
  from churn_downgrade_step5_only
    [where env = E and rule = up_job_rule and selector = up_job and lm = job_api
       and trsLabel = "week_ranges []" and trs = "week_ranges [all_week]" and hc = "[''job'']"
       and st = st and expr = "Expr up_job_rule"]
    checked answer none
  have "st_problems (matcher_step E up_job_rule up_job (week_ranges [all_week]) [''job''] st job_api)
      = [no_match_problem E (Expr up_job_rule) up_job (week_ranges [all_week]) (week_ranges []) [''job''] job_api]"
    and "Severity (no_match_problem E (Expr up_job_rule) up_job (week_ranges [all_week]) (week_ranges []) [''job''] job_api)
      = Warning"
    by (simp_all add: up_job_shape)
  with run frag show ?thesis by (simp add: E_def)
qed

section \<open>Properties of the query errors\<close>

text \<open>
  C9. An error of the backend, at any of the four queries of the pipeline, becomes exactly one
  finding and nothing else changes but the trace: the finding is \<open>queryProblem\<close>, whose
  text and severity come from \<open>textAndSeverityFromError\<close> called with the default \<open>Bug\<close>, and
  whose fragment is the selector (instant query and per-label query), the bare selector
  (historical query) or the selector of the one matcher (per-matcher query). After an error of
  the instant or of the historical query the loop over the selectors goes on with the next
  selector; after an error of a per-label query the per-label loop goes on with the next label,
  and after an error of a per-matcher query the per-matcher loop goes on with the next matcher.
  \<open>Check\<close> is a total function: it returns its findings whatever the backend answers.
\<close>

theorem query_errors_become_findings:
  "(promQuery env (instant_query env selector) = Inl err \<longrightarrow>
      presence_check env rule entries selector st
        = add_problem (queryProblem env err (selectorString env selector) (Expr rule))
            (add_events [QueryEv (instant_query env selector)] st))
   \<and> (instantSeriesCount env (instant_query env selector) = Inr res \<and> \<not> 0 < fst res
        \<and> promRangeQuery env (bare_query env selector) rangeLookback rangeStep = Inl err \<longrightarrow>
      presence_check env rule entries selector st
        = add_problem (queryProblem env err (selectorString env (stripLabels selector)) (Expr rule))
            (add_events [RangeQueryEv (bare_query env selector)]
               (add_events [QueryEv (instant_query env selector)] st)))
   \<and> (promRangeQuery env (label_query env selector name) rangeLookback rangeStep = Inl err \<longrightarrow>
      foldl (label_step env expr selector) (st, hc) (name # names)
        = foldl (label_step env expr selector)
            (add_problem (queryProblem env err (selectorString env selector) expr)
               (add_events [RangeQueryEv (label_query env selector name)] st), hc)
            names)
   \<and> (checked_matcher env rule selector lm
        \<and> promRangeQuery env (matcher_query env selector lm) rangeLookback rangeStep = Inl err \<longrightarrow>
      foldl (matcher_step env rule selector trs hc) st (lm # lms)
        = foldl (matcher_step env rule selector trs hc)
            (add_problem
               (queryProblem env err (selectorString env (matcher_selector selector lm)) (Expr rule))
               (add_events
                  (map HasCommentEv (ignore_keys env selector (lm_Name lm))
                   @ [RangeQueryEv (matcher_query env selector lm)]) st))
            lms)
   \<and> (selectorString env selector \<notin> st_done st
        \<and> \<not> list_ex (HasComment rule) (disable_keys env selector)
        \<and> metricName selector \<noteq> ''ALERTS'' \<and> metricName selector \<noteq> ''ALERTS_FOR_STATE''
        \<and> (promQuery env (instant_query env selector) = Inl err
           \<or> (\<exists>res. instantSeriesCount env (instant_query env selector) = Inr res \<and> \<not> 0 < fst res)
              \<and> promRangeQuery env (bare_query env selector) rangeLookback rangeStep = Inl err) \<longrightarrow>
      (\<exists>p evs. foldl (selector_step env rule entries) st (selector # rest)
           = foldl (selector_step env rule entries)
               (add_problem p (add_events evs
                  (st\<lparr>st_done := insert (selectorString env selector) (st_done st)\<rparr>)))
               rest
         \<and> Text p = fst (textAndSeverityFromError env err SeriesCheckName (promName env) Bug)
         \<and> Severity p = snd (textAndSeverityFromError env err SeriesCheckName (promName env) Bug)))
   \<and> Fragment (queryProblem env err fragment expr) = fragment
   \<and> Text (queryProblem env err fragment expr)
       = fst (textAndSeverityFromError env err SeriesCheckName (promName env) Bug)
   \<and> Severity (queryProblem env err fragment expr)
       = snd (textAndSeverityFromError env err SeriesCheckName (promName env) Bug)
   \<and> (\<exists>problems trace. Check env rule entries = (problems, trace))"
proof -
  have instant: "presence_check env rule entries selector st
        = add_problem (queryProblem env err (selectorString env selector) (Expr rule))
            (add_events [QueryEv (instant_query env selector)] st)"
    if "promQuery env (instant_query env selector) = Inl err"
    using that by (simp add: presence_check_def instantSeriesCount_def)
  have bare: "presence_check env rule entries selector st
        = add_problem (queryProblem env err (selectorString env (stripLabels selector)) (Expr rule))
            (add_events [RangeQueryEv (bare_query env selector)]
               (add_events [QueryEv (instant_query env selector)] st))"
    if "instantSeriesCount env (instant_query env selector) = Inr res \<and> \<not> 0 < fst res
        \<and> promRangeQuery env (bare_query env selector) rangeLookback rangeStep = Inl err" for res
    using that by (simp add: presence_check_def history_check_def serieTimeRanges_def)
  have label: "foldl (label_step env expr selector) (st, hc) (name # names)
        = foldl (label_step env expr selector)
            (add_problem (queryProblem env err (selectorString env selector) expr)
               (add_events [RangeQueryEv (label_query env selector name)] st), hc)
            names"
    if "promRangeQuery env (label_query env selector name) rangeLookback rangeStep = Inl err"
    using that by (simp add: label_step_def serieTimeRanges_def)
  have matcher: "foldl (matcher_step env rule selector trs hc) st (lm # lms)
        = foldl (matcher_step env rule selector trs hc)
            (add_problem
               (queryProblem env err (selectorString env (matcher_selector selector lm)) (Expr rule))
               (add_events
                  (map HasCommentEv (ignore_keys env selector (lm_Name lm))
                   @ [RangeQueryEv (matcher_query env selector lm)]) st))
            lms"
    if "checked_matcher env rule selector lm
        \<and> promRangeQuery env (matcher_query env selector lm) rangeLookback rangeStep = Inl err"
    using that
    by (auto simp: checked_matcher_def matcher_step_def serieTimeRanges_def
        isLabelValueIgnored_def comment_lookups_none)
  have finding:
    "Fragment (queryProblem env err fragment expr) = fragment"
    "Text (queryProblem env err fragment expr)
       = fst (textAndSeverityFromError env err SeriesCheckName (promName env) Bug)"
    "Severity (queryProblem env err fragment expr)
       = snd (textAndSeverityFromError env err SeriesCheckName (promName env) Bug)"
    for fragment expr
    by (simp_all add: queryProblem_def)
  have next_selector: "\<exists>p evs. foldl (selector_step env rule entries) st (selector # rest)
           = foldl (selector_step env rule entries)
               (add_problem p (add_events evs
                  (st\<lparr>st_done := insert (selectorString env selector) (st_done st)\<rparr>)))
               rest
         \<and> Text p = fst (textAndSeverityFromError env err SeriesCheckName (promName env) Bug)
         \<and> Severity p = snd (textAndSeverityFromError env err SeriesCheckName (promName env) Bug)"
    if h: "selectorString env selector \<notin> st_done st
        \<and> \<not> list_ex (HasComment rule) (disable_keys env selector)
        \<and> metricName selector \<noteq> ''ALERTS'' \<and> metricName selector \<noteq> ''ALERTS_FOR_STATE''
        \<and> (promQuery env (instant_query env selector) = Inl err
           \<or> (\<exists>res. instantSeriesCount env (instant_query env selector) = Inr res \<and> \<not> 0 < fst res)
              \<and> promRangeQuery env (bare_query env selector) rangeLookback rangeStep = Inl err)"
  proof -
    let ?st = "st\<lparr>st_done := insert (selectorString env selector) (st_done st)\<rparr>"
    let ?lookups = "map HasCommentEv (disable_keys env selector)"
    from h have step: "selector_step env rule entries st selector
        = presence_check env rule entries selector (add_events ?lookups ?st)"
      by (simp add: selector_step_def check_selector_def comment_lookups_none)
    from h consider
      (a) "promQuery env (instant_query env selector) = Inl err"
      | (b) res where "instantSeriesCount env (instant_query env selector) = Inr res" "\<not> 0 < fst res"
          "promRangeQuery env (bare_query env selector) rangeLookback rangeStep = Inl err"
      by blast
    then show ?thesis
    proof cases
      case a
      then have "presence_check env rule entries selector (add_events ?lookups ?st)
          = add_problem (queryProblem env err (selectorString env selector) (Expr rule))
              (add_events (?lookups @ [QueryEv (instant_query env selector)]) ?st)"
        by (simp add: presence_check_def instantSeriesCount_def add_events_def)
      with step finding show ?thesis by (intro exI[where x = "queryProblem env err (selectorString env selector) (Expr rule)"]
          exI[where x = "?lookups @ [QueryEv (instant_query env selector)]"]) simp
    next
      case b
      then have "presence_check env rule entries selector (add_events ?lookups ?st)
          = add_problem (queryProblem env err (selectorString env (stripLabels selector)) (Expr rule))
              (add_events (?lookups @ [QueryEv (instant_query env selector),
                                       RangeQueryEv (bare_query env selector)]) ?st)"
        by (simp add: presence_check_def history_check_def serieTimeRanges_def add_events_def)
      with step finding show ?thesis by (intro exI[where x = "queryProblem env err (selectorString env (stripLabels selector)) (Expr rule)"]
          exI[where x = "?lookups @ [QueryEv (instant_query env selector), RangeQueryEv (bare_query env selector)]"]) simp
    qed
  qed
  have total: "\<exists>problems trace. Check env rule entries = (problems, trace)"
    by (cases "Check env rule entries") blast
  from instant bare label matcher next_selector finding total show ?thesis by blast
qed
theorem query_errors_become_findings_witness:
  "map (\<lambda>p. (Fragment p, Text p, Severity p))
     (fst (Check (example_env [] []) (example_rule None [name_selector ''up'', name_selector ''down''] [] []) []))
     = [(''up'', ''prom failed with: connection refused'', Bug),
        (''down'', ''prom failed with: connection refused'', Bug)]
   \<and> snd (Check (example_env [] []) (example_rule None [name_selector ''up'', name_selector ''down''] [] []) [])
     = [HasCommentEv ''disable promql/series(up)'', HasCommentEv ''disable promql/series(up)'',
        QueryEv ''count(up)'',
        HasCommentEv ''disable promql/series(down)'', HasCommentEv ''disable promql/series(down)'',
        QueryEv ''count(down)'']"
proof -
  define E where "E = example_env [] []"
  define R where "R = example_rule None [name_selector ''up'', name_selector ''down''] [] []"
  have fails: "promQuery E (instant_query E (name_selector n)) = Inl ''connection refused''" for n
    by (simp add: E_def example_env_def table_answer_def)
  have shape: "selectorString E = render_selector" "instant_query E (name_selector n) = ''count('' @ n @ '')''" for n
    by (simp_all add: E_def example_env_def instant_query_def name_selector_facts)
  have one: "presence_check E R [] (name_selector n) st
      = add_problem (queryProblem E ''connection refused'' n (Expr R))
          (add_events [QueryEv (''count('' @ n @ '')'')] st)" for n st
    using query_errors_become_findings
      [where env = E and selector = "name_selector n" and err = "''connection refused''"
         and rule = R and entries = "[]" and st = st]
      fails[of n]
    by (simp add: shape name_selector_facts)
  have finding: "Fragment (queryProblem E err n (Expr R)) = n"
    "Text (queryProblem E err n (Expr R)) = ''prom failed with: '' @ err"
    "Severity (queryProblem E err n (Expr R)) = Bug" for err n
    by (simp_all add: queryProblem_def E_def example_env_def)
  have "Check E R [] =
     ([queryProblem E ''connection refused'' ''up'' (Expr R),
       queryProblem E ''connection refused'' ''down'' (Expr R)],
      [HasCommentEv ''disable promql/series(up)'', HasCommentEv ''disable promql/series(up)'',
        QueryEv ''count(up)'',
        HasCommentEv ''disable promql/series(down)'', HasCommentEv ''disable promql/series(down)'',
        QueryEv ''count(down)''])"
    by (simp add: Check_def R_def plain_rule selector_step_def check_selector_def
        comment_lookups_none name_selector_facts shape one[unfolded R_def] init_state_def
        add_problem_def add_events_def disable_keys_def SeriesCheckName_def)
  with finding show ?thesis by (simp add: E_def R_def)
qed

section \<open>Properties of the churn test\<close>

lemma int_div_less_iff:
  assumes "0 < (b::int)"
  shows "(a div b < c) = (a < c * b)"
proof
  have split: "a = (a div b) * b + a mod b" by simp
  have bound: "0 \<le> a mod b" "a mod b < b" using assms by simp_all
  {
    assume "a div b < c"
    then have "a div b + 1 \<le> c" by simp
    then have "(a div b + 1) * b \<le> c * b" using assms by (simp only: mult_right_mono less_imp_le)
    moreover have "(a div b + 1) * b = (a div b) * b + b" by (simp add: algebra_simps)
    then have "a < (a div b + 1) * b" using split bound by linarith
    ultimately show "a < c * b" by linarith
  }
  {
    assume lt: "a < c * b"
    show "a div b < c"
    proof (rule ccontr)
      assume "\<not> a div b < c"
      then have "c \<le> a div b" by simp
      then have "c * b \<le> (a div b) * b" using assms by (simp only: mult_right_mono less_imp_le)
      moreover have "(a div b) * b \<le> a" using split bound by linarith
      ultimately show False using lt by linarith
    qed
  }
qed

lemma go_div_nonneg: "0 \<le> a \<Longrightarrow> 0 < b \<Longrightarrow> go_div a b = a div b"
  by (cases "a = 0") (simp_all add: go_div_def)

lemma wrap64_id:
  "- 9223372036854775808 \<le> x \<Longrightarrow> x < 9223372036854775808 \<Longrightarrow> wrap64 x = x"
  by (simp add: wrap64_def)

lemma wrap64_add: "wrap64 (wrap64 a + b) = wrap64 (a + b)"
proof -
  have "(wrap64 a + b + 9223372036854775808) mod 18446744073709551616
      = ((a + 9223372036854775808) mod 18446744073709551616 + b) mod 18446744073709551616"
    by (simp add: wrap64_def algebra_simps)
  also have "\<dots> = (a + 9223372036854775808 + b) mod 18446744073709551616"
    by (rule mod_add_left_eq)
  finally show ?thesis by (simp add: wrap64_def algebra_simps)
qed

lemma sat64_id:
  "- 9223372036854775808 \<le> x \<Longrightarrow> x < 9223372036854775808 \<Longrightarrow> sat64 x = x"
  by (simp add: sat64_def)

text \<open>The total of \<open>avgLife\<close> is the sum of the lengths of the ranges, wrapped around once.\<close>

lemma total_life_wrap:
  "total_life t = wrap64 (sum_list (map (\<lambda>r. Sub (r_end r) (r_start r)) (tr_ranges t)))"
proof -
  have "foldl (\<lambda>d r. wrap64 (d + Sub (r_end r) (r_start r))) (wrap64 a) rs
      = wrap64 (a + sum_list (map (\<lambda>r. Sub (r_end r) (r_start r)) rs))" for a rs
  proof (induction rs arbitrary: a)
    case Nil
    then show ?case by simp
  next
    case (Cons r rs)
    have "wrap64 (wrap64 a + Sub (r_end r) (r_start r)) = wrap64 (a + Sub (r_end r) (r_start r))"
      by (rule wrap64_add)
    with Cons[of "a + Sub (r_end r) (r_start r)"] show ?case by (simp add: add.assoc)
  qed
  from this[of 0 "tr_ranges t"] show ?thesis
    by (simp add: total_life_def wrap64_def)
qed

lemma length_labelValues:
  "length (labelValues t name) = card {v. \<exists>r\<in>set (tr_ranges t). r_labels r name = Some v}"
proof -
  have "set (List.map_filter (\<lambda>s. r_labels s name) (tr_ranges t))
      = {v. \<exists>r\<in>set (tr_ranges t). r_labels r name = Some v}"
    by (force simp: map_filter_def)
  then show ?thesis by (simp add: labelValues_def length_remdups_card_conv)
qed

lemma sum_list_le_member:
  "\<forall>x\<in>set xs. 0 \<le> f x \<Longrightarrow> y \<in> set xs \<Longrightarrow> f y \<le> (sum_list (map f xs) :: int)"
proof (induction xs)
  case Nil
  then show ?case by simp
next
  case (Cons x xs)
  have "0 \<le> sum_list (map f xs)" using Cons.prems(1) by (auto intro!: sum_list_nonneg)
  with Cons show ?case by auto
qed

text \<open>
  When the ranges are not empty intervals and the sum of their lengths is inside int64, the
  total and the average of \<open>avgLife\<close> are the exact sum and its quotient in whole seconds.
\<close>

lemma avgLife_in_range:
  assumes pos: "\<forall>r\<in>set (tr_ranges t). r_start r \<le> r_end r"
    and fit: "sum_list (map (\<lambda>r. r_end r - r_start r) (tr_ranges t)) < 9223372036854775808"
    and some: "tr_ranges t \<noteq> []"
  shows "avgLife t
       = Second * ((sum_list (map (\<lambda>r. r_end r - r_start r) (tr_ranges t)) div Second)
                   div int (length (tr_ranges t)))"
proof -
  define S where "S = sum_list (map (\<lambda>r. r_end r - r_start r) (tr_ranges t))"
  define n where "n = int (length (tr_ranges t))"
  have nonneg: "\<forall>r\<in>set (tr_ranges t). 0 \<le> r_end r - r_start r" using pos by simp
  have each: "Sub (r_end r) (r_start r) = r_end r - r_start r" if "r \<in> set (tr_ranges t)" for r
  proof -
    from sum_list_le_member[OF nonneg that] fit have "r_end r - r_start r < 9223372036854775808"
      by simp
    moreover from nonneg that have "0 \<le> r_end r - r_start r" by simp
    ultimately show ?thesis by (simp add: Sub_def sat64_id)
  qed
  then have maps: "map (\<lambda>r. Sub (r_end r) (r_start r)) (tr_ranges t)
      = map (\<lambda>r. r_end r - r_start r) (tr_ranges t)" by simp
  have tot: "total_life t = wrap64 S" by (simp only: total_life_wrap S_def maps)
  have S0: "0 \<le> S" unfolding S_def using nonneg by (auto intro!: sum_list_nonneg)
  with fit have tot': "total_life t = S" unfolding tot by (simp add: wrap64_id S_def)
  have n: "0 < n" using some by (simp add: n_def)
  have q0: "0 \<le> S div Second" using S0 by (simp add: Second_def pos_imp_zdiv_nonneg_iff)
  have ws: "whole_seconds (total_life t) = S div Second"
    using S0 by (simp add: tot' whole_seconds_def go_div_nonneg Second_def)
  have gd: "go_div (S div Second) n = (S div Second) div n"
    using q0 n by (simp add: go_div_nonneg)
  have q1: "0 \<le> (S div Second) div n" using q0 n by (simp add: pos_imp_zdiv_nonneg_iff)
  define q where "q = S div Second"
  define b where "b = Second * q"
  have "q < (q + 1) * n"
  proof -
    have "(q + 1) * 1 \<le> (q + 1) * n" using q0 n unfolding q_def by (intro mult_left_mono) simp_all
    then show ?thesis by simp
  qed
  then have "q div n < q + 1" using n by (simp only: int_div_less_iff)
  then have "Second * (q div n) \<le> Second * q"
    by (intro mult_left_mono) (simp_all add: Second_def)
  moreover have "S = b + S mod Second" by (simp add: b_def q_def)
  moreover have "0 \<le> S mod Second" by (simp add: Second_def)
  ultimately have "Second * ((S div Second) div n) \<le> S"
    unfolding b_def q_def by linarith
  moreover have "0 \<le> Second * ((S div Second) div n)" using q1 by (simp add: Second_def)
  ultimately have "wrap64 (Second * ((S div Second) div n)) = Second * ((S div Second) div n)"
    using fit by (intro wrap64_id) (simp_all add: S_def)
  with some ws gd show ?thesis by (simp add: avgLife_def S_def n_def)
qed
text \<open>
  For an answer over the lookback of seven days whose ranges sum up inside int64, the test
  of the per-label loop says exactly: as many distinct values as ranges, and a mean length of
  the ranges below half the window.
\<close>

lemma high_churn_within_int64:
  assumes run: "serieTimeRanges env query rangeLookback rangeStep = Inr t"
    and window: "tr_until t - tr_from t = rangeLookback"
    and fit: "sum_list (map (\<lambda>r. r_end r - r_start r) (tr_ranges t)) < 9223372036854775808"
    and some: "tr_ranges t \<noteq> []"
  shows "highChurn t name
       = (card {v. \<exists>r\<in>set (tr_ranges t). r_labels r name = Some v} = length (tr_ranges t)
          \<and> 2 * sum_list (map (\<lambda>r. r_end r - r_start r) (tr_ranges t))
              < int (length (tr_ranges t)) * rangeLookback)"
proof -
  define S where "S = sum_list (map (\<lambda>r. r_end r - r_start r) (tr_ranges t))"
  define n where "n = int (length (tr_ranges t))"
  from run have "\<exists>samples. tr_ranges t = build_ranges rangeStep samples"
    by (cases "promRangeQuery env query rangeLookback rangeStep") (auto simp: serieTimeRanges_def)
  then obtain samples where t: "tr_ranges t = build_ranges rangeStep samples" ..
  have "0 < rangeStep" by (simp add: rangeStep_def Minute_def Second_def)
  then have pos: "\<forall>r\<in>set (tr_ranges t). r_start r \<le> r_end r"
    unfolding t using build_ranges_nonempty by (metis less_imp_le)
  have avg: "avgLife t = Second * ((S div Second) div n)"
    using avgLife_in_range[OF pos fit some] by (simp add: S_def n_def)
  have half: "go_div (duration t) 2 = Second * 302400"
    by (simp add: duration_def Sub_def window sat64_def go_div_def rangeLookback_def Hour_def
        Minute_def Second_def)
  have n: "0 < n" using some by (simp add: n_def)
  have sec: "0 < Second" by (simp add: Second_def)
  have "(avgLife t < go_div (duration t) 2) = (Second * ((S div Second) div n) < Second * 302400)"
    by (simp only: avg half)
  also have "\<dots> = ((S div Second) div n < 302400)"
    using sec by (simp only: mult_less_cancel_left_pos)
  also have "\<dots> = (S div Second < 302400 * n)"
    using n by (rule int_div_less_iff)
  also have "\<dots> = (S < 302400 * n * Second)"
    using sec by (rule int_div_less_iff)
  also have "\<dots> = (2 * S < n * rangeLookback)"
    by (simp add: rangeLookback_def Hour_def Minute_def Second_def)
  finally show ?thesis
    by (simp add: highChurn_def length_labelValues S_def n_def)
qed

text \<open>A single range that covers at least half of the seven days is never flagged.\<close>

lemma single_range_not_flagged:
  assumes one: "tr_ranges t = [r]"
    and window: "tr_until t - tr_from t = rangeLookback"
    and long: "rangeLookback \<le> 2 * (r_end r - r_start r)"
  shows "\<not> highChurn t name"
proof -
  define len where "len = Sub (r_end r) (r_start r)"
  define q where "q = len div Second"
  have low: "302400 * Second \<le> len"
    using long
    by (simp add: len_def Sub_def sat64_def rangeLookback_def Hour_def Minute_def Second_def)
  have high: "len < 9223372036854775808"
    by (simp add: len_def Sub_def sat64_def)
  have len0: "0 \<le> len" using low by (simp add: Second_def)
  have tot: "total_life t = len"
    using len0 high by (simp add: total_life_def one len_def[symmetric] wrap64_id)
  have "\<not> len < 302400 * Second" using low by simp
  then have q: "\<not> q < 302400"
    unfolding q_def using int_div_less_iff[of Second len 302400] by (simp add: Second_def)
  have split: "len = Second * q + len mod Second" by (simp add: q_def)
  have rest: "0 \<le> len mod Second" by (simp add: Second_def)
  define b where "b = Second * q"
  have b: "302400 * Second \<le> b" "b \<le> len"
    using q split rest by (simp_all add: b_def Second_def)
  have q0: "0 \<le> q" using q by simp
  have "whole_seconds len = q"
    using len0 by (simp add: whole_seconds_def go_div_nonneg q_def Second_def)
  moreover have "go_div q 1 = q" using q0 by (simp add: go_div_nonneg)
  ultimately have "avgLife t = wrap64 b"
    by (simp add: avgLife_def one tot b_def)
  also have "\<dots> = b" using b high by (intro wrap64_id) (simp_all add: Second_def)
  finally have "avgLife t = b" .
  moreover have "go_div (duration t) 2 = Second * 302400"
    by (simp add: duration_def Sub_def window sat64_def go_div_def rangeLookback_def Hour_def
        Minute_def Second_def)
  ultimately show ?thesis using b by (simp add: highChurn_def)
qed
subsection \<open>A label with many long-lived values\<close>

lemma add_sample_other:
  "\<forall>r\<in>set rs. r_labels r \<noteq> m \<Longrightarrow> add_sample stp m ts (rs @ xs) = rs @ add_sample stp m ts xs"
  by (induction rs) auto

lemma add_stream_other:
  assumes "\<forall>r\<in>set rs. r_labels r \<noteq> Metric s"
  shows "add_stream stp (rs @ xs) s = rs @ add_stream stp xs s"
proof -
  have "foldl (\<lambda>acc v. add_sample stp (Metric s) (Timestamp_Time v) acc) (rs @ xs) vs
      = rs @ foldl (\<lambda>acc v. add_sample stp (Metric s) (Timestamp_Time v) acc) xs vs" for vs xs
    by (induction vs arbitrary: xs) (simp_all add: add_sample_other[OF assms])
  then show ?thesis by (simp add: add_stream_def)
qed

lemma add_stream_steady:
  assumes "0 < n" "\<forall>r\<in>set rs. r_labels r \<noteq> m"
  shows "add_stream rangeStep rs (steady_stream m a n)
       = rs @ [\<lparr>r_labels = m, r_start = a * 1000000, r_end = a * 1000000 + int n * rangeStep\<rparr>]"
proof -
  have "Metric (steady_stream m a n) = m" by (simp add: steady_stream_def)
  with assms(2) add_stream_other[of rs "steady_stream m a n" rangeStep "[]"]
  have "add_stream rangeStep rs (steady_stream m a n)
      = rs @ add_stream rangeStep [] (steady_stream m a n)" by simp
  moreover have "add_stream rangeStep [] (steady_stream m a n)
      = build_ranges rangeStep [steady_stream m a n]" by (simp add: build_ranges_def)
  ultimately show ?thesis using steady_stream_ranges[OF assms(1)] by simp
qed

text \<open>Steady streams of pairwise different label sets give one range each.\<close>

lemma many_streams:
  assumes "0 < n"
  shows "distinct (map L ks) \<Longrightarrow> \<forall>r\<in>set rs. r_labels r \<notin> L ` set ks \<Longrightarrow>
    foldl (add_stream rangeStep) rs (map (\<lambda>k. steady_stream (L k) a n) ks)
      = rs @ map (\<lambda>k. \<lparr>r_labels = L k, r_start = a * 1000000,
                           r_end = a * 1000000 + int n * rangeStep\<rparr>) ks"
proof (induction ks arbitrary: rs)
  case Nil
  then show ?case by simp
next
  case (Cons k ks)
  let ?r = "\<lparr>r_labels = L k, r_start = a * 1000000, r_end = a * 1000000 + int n * rangeStep\<rparr>"
  have fresh: "\<forall>r\<in>set rs. r_labels r \<noteq> L k" using Cons.prems(2) by auto
  have step: "add_stream rangeStep rs (steady_stream (L k) a n) = rs @ [?r]"
    using assms fresh by (rule add_stream_steady)
  have "\<forall>r\<in>set (rs @ [?r]). r_labels r \<notin> L ` set ks"
    using Cons.prems by auto
  with Cons.IH[of "rs @ [?r]"] Cons.prems(1) step show ?case by simp
qed

lemma job_labels_distinct: "distinct (map (\<lambda>k. [''job'' \<mapsto> job_value k]) ks) = distinct ks"
proof -
  have "inj (\<lambda>k. [''job'' \<mapsto> job_value k])"
  proof (rule injI)
    fix k k' assume "[''job'' \<mapsto> job_value k] = [''job'' \<mapsto> job_value k']"
    then have "job_value k = job_value k'" by (rule map_upd_eqD1)
    then have "length (job_value k) = length (job_value k')" by simp
    then show "k = k'" by (simp add: job_value_def)
  qed
  then show ?thesis by (simp add: distinct_map inj_on_def inj_def)
qed

lemma many_jobs_ranges: "build_ranges rangeStep (many_jobs n) = map job_range [0..<n]"
proof -
  have week: "int 2016 * rangeStep = rangeLookback"
    by (simp add: rangeLookback_def rangeStep_def Hour_def Minute_def Second_def)
  have "distinct (map (\<lambda>k. [''job'' \<mapsto> job_value k]) [0..<n])"
    by (simp add: job_labels_distinct)
  from many_streams[of 2016 "\<lambda>k. [''job'' \<mapsto> job_value k]" "[0..<n]" "[]" 0, OF _ this]
  show ?thesis
    unfolding build_ranges_def many_jobs_def week job_range_def by simp
qed

lemma many_jobs_values:
  "distinct ks \<Longrightarrow> length (labelValues (week_ranges (map job_range ks)) ''job'') = length ks"
  "withLabelName (week_ranges (map job_range ks)) ''job'' = map job_range ks"
proof -
  have vals: "List.map_filter (\<lambda>s. r_labels s ''job'') (map job_range ks) = map job_value ks"
    by (induction ks) (simp_all add: map_filter_def job_range_def)
  have "inj_on job_value (set ks)"
  proof (rule inj_onI)
    fix k k' assume "job_value k = job_value k'"
    then have "length (job_value k) = length (job_value k')" by simp
    then show "k = k'" by (simp add: job_value_def)
  qed
  then have "distinct (map job_value ks)" if "distinct ks"
    using that by (simp add: distinct_map)
  then show "distinct ks \<Longrightarrow> length (labelValues (week_ranges (map job_range ks)) ''job'') = length ks"
    by (simp add: labelValues_def week_ranges_def vals distinct_remdups_id)
  show "withLabelName (week_ranges (map job_range ks)) ''job'' = map job_range ks"
    by (induction ks) (simp_all add: withLabelName_def week_ranges_def job_range_def)
qed

lemma many_jobs_total:
  "total_life (week_ranges (map job_range ks)) = wrap64 (int (length ks) * rangeLookback)"
proof -
  have "Sub (r_end (job_range k)) (r_start (job_range k)) = rangeLookback" for k
    by (simp add: job_range_def Sub_def sat64_def rangeLookback_def Hour_def Minute_def Second_def)
  then have "sum_list (map (\<lambda>r. Sub (r_end r) (r_start r)) (map job_range ks))
      = int (length ks) * rangeLookback"
    by (induction ks) (simp_all add: algebra_simps)
  then show ?thesis by (simp add: total_life_wrap week_ranges_def)
qed
lemma week_ranges_fields:
  "tr_ranges (week_ranges rs) = rs"
  "duration (week_ranges rs) = rangeLookback"
  by (simp_all add: week_ranges_def duration_def Sub_def sat64_def rangeLookback_def Hour_def
      Minute_def Second_def)

lemma many_jobs_avgLife:
  "0 < n \<Longrightarrow> avgLife (week_ranges (map job_range [0..<n]))
     = wrap64 (Second * go_div (whole_seconds (wrap64 (int n * rangeLookback))) (int n))"
  by (simp add: avgLife_def week_ranges_fields many_jobs_total)

lemma many_jobs_churn:
  "highChurn (week_ranges (map job_range [0..<n])) ''job''
     = (n = 0 \<or> wrap64 (Second * go_div (whole_seconds (wrap64 (int n * rangeLookback))) (int n))
                  < go_div rangeLookback 2)"
proof (cases "n = 0")
  case True
  then show ?thesis
    by (simp add: highChurn_def avgLife_def week_ranges_fields labelValues_def map_filter_def
        go_div_def rangeLookback_def Hour_def Minute_def Second_def)
next
  case False
  then show ?thesis
    by (simp add: highChurn_def week_ranges_fields many_jobs_values many_jobs_avgLife)
qed

text \<open>
  C5, on a run. The label \<open>job\<close> has 20000 values, each of them there for the whole week,
  so that the ranges are as many as the values and their mean length is seven days, twice the
  half window. The sum of the lengths, 20000 weeks, does not fit the int64 of \<open>avgLife\<close> and
  wraps around to a negative total: \<open>avgLife\<close> is -317537 seconds, below half the window,
  and the label is flagged high-churn; the finding of step 5 is then a \<open>Warning\<close>. With 10000
  values the sum fits, the label is not flagged and the finding is a \<open>Bug\<close>.
\<close>

theorem long_lived_values_flagged_high_churn:
  "serieTimeRanges (up_job_env (many_jobs 20000) []) up_job_label_query rangeLookback rangeStep
     = Inr (week_ranges (map job_range [0..<20000]))
   \<and> avgLife (week_ranges (map job_range [0..<20000])) = - 317537 * Second
   \<and> highChurn (week_ranges (map job_range [0..<20000])) ''job''
   \<and> \<not> highChurn (week_ranges (map job_range [0..<10000])) ''job''
   \<and> map (\<lambda>p. (Fragment p, Severity p))
       (fst (Check (up_job_env (many_jobs 20000) []) up_job_rule []))
     = [(''up{job='' @ [CHR 0x22] @ ''api'' @ [CHR 0x22] @ ''}'', Warning)]
   \<and> map (\<lambda>p. (Fragment p, Severity p))
       (fst (Check (up_job_env (many_jobs 10000) []) up_job_rule []))
     = [(''up{job='' @ [CHR 0x22] @ ''api'' @ [CHR 0x22] @ ''}'', Bug)]"
proof -
  have answer: "serieTimeRanges (up_job_env (many_jobs n) []) up_job_label_query rangeLookback rangeStep
     = Inr (week_ranges (map job_range [0..<n]))" for n
    by (simp add: up_job_answers many_jobs_ranges)
  have avg: "avgLife (week_ranges (map job_range [0..<20000])) = - 317537 * Second"
    by (simp add: many_jobs_avgLife)
       (simp add: wrap64_def whole_seconds_def go_div_def rangeLookback_def Hour_def Minute_def
        Second_def)
  have churn: "highChurn (week_ranges (map job_range [0..<20000])) ''job''"
    "\<not> highChurn (week_ranges (map job_range [0..<10000])) ''job''"
    by (simp_all add: many_jobs_churn)
       (simp_all add: wrap64_def whole_seconds_def go_div_def rangeLookback_def Hour_def
        Minute_def Second_def)
  have none: "build_ranges rangeStep [] = []" by (simp add: build_ranges_def)
  have run: "fst (Check (up_job_env (many_jobs n) []) up_job_rule [])
      = [no_match_problem (up_job_env (many_jobs n) []) (Expr up_job_rule) up_job
           (week_ranges [all_week]) (week_ranges [])
           (if highChurn (week_ranges (map job_range [0..<n])) ''job'' then [''job''] else [])
           job_api]"
    if "0 < n" for n
    using that unfolding up_job_Check
    by (simp add: up_job_run up_job_matcher many_jobs_ranges many_jobs_values none
        init_state_def add_problem_def add_events_def)
  have finding:
    "Fragment (no_match_problem (up_job_env B []) (Expr up_job_rule) up_job trs trsLabel hc job_api)
      = ''up{job='' @ [CHR 0x22] @ ''api'' @ [CHR 0x22] @ ''}''"
    "Severity (no_match_problem (up_job_env B []) (Expr up_job_rule) up_job trs trsLabel hc job_api)
      = (if ''job'' \<in> set hc then Warning else Bug)" for B trs trsLabel hc
    by (simp_all add: no_match_problem_def up_job_shape up_job_strings)
  from answer[of 20000] avg churn run[of 20000] run[of 10000] finding show ?thesis by simp
qed

end
